theory Spec2Isabelle
  imports Main "HOL-Library.AList" "HOL-Library.Multiset"
begin

section \<open>Values, requests and responses\<close>

text \<open>
  The server of \<^verbatim>\<open>src/src/index.ts\<close> receives JSON bodies, keeps documents in four
  MongoDB collections and answers with JSON. A value is a JSON value, extended with the two
  kinds of value that only stored documents hold: a date (milliseconds since the epoch, as
  \<^verbatim>\<open>Date.now\<close> gives it) and the store's object identifier. Numbers are restricted to
  integers: no handler computes with them. A JavaScript object is an association list that
  is read with \<open>map_of\<close> and written with \<open>AList.update\<close> (an existing key keeps its place,
  a new key goes to the end, as a property assignment does). The body of a request is the
  object that \<^verbatim>\<open>express.json()\<close> parsed, the empty object when the request has none.
\<close>

datatype val =
    JNull
  | JBool bool
  | JNum int
  | JStr string
  | JArr "val list"
  | JObj "(string \<times> val) list"
  | JDate nat
  | JOid string

type_synonym obj = "(string \<times> val) list"

record request =
  authorization :: "string option"
  param_id :: string
  body :: obj
  admin :: "obj option"

record response =
  status :: nat
  json :: val

text \<open>\<^verbatim>\<open>res.json(v)\<close> answers with status 200; \<^verbatim>\<open>res.status(c).json({ error: m })\<close>
  with status \<open>c\<close>.\<close>

definition res_json :: "val \<Rightarrow> response" where
  "res_json v = \<lparr>status = 200, json = v\<rparr>"

definition res_error :: "nat \<Rightarrow> string \<Rightarrow> response" where
  "res_error c m = \<lparr>status = c, json = JObj [(''error'', JStr m)]\<rparr>"

definition res_success :: response where
  "res_success = res_json (JObj [(''success'', JBool True)])"

definition res_data :: "obj \<Rightarrow> response" where
  "res_data d = res_json (JObj [(''success'', JBool True), (''data'', JObj d)])"

section \<open>Configuration\<close>

text \<open>
  Lines 12 to 16: every setting is \<^verbatim>\<open>process.env.X || default\<close>, so an unset and an empty
  variable both give the default. The default of the password hash is the empty string,
  which the login handler reads as "not configured"; the email and the secret are never
  empty.
\<close>

record config =
  admin_email :: string
  admin_password_hash :: string
  jwt_secret :: string

definition or_default :: "string option \<Rightarrow> string \<Rightarrow> string" where
  "or_default v d = (case v of None \<Rightarrow> d | Some s \<Rightarrow> if s = [] then d else s)"

definition load_config :: "(string \<Rightarrow> string option) \<Rightarrow> config" where
  "load_config getenv =
     \<lparr>admin_email = or_default (getenv ''ADMIN_EMAIL'') ''admin@ssprealty.com'',
      admin_password_hash = or_default (getenv ''ADMIN_PASSWORD_HASH'') [],
      jwt_secret = or_default (getenv ''JWT_SECRET'')
        ''ssp-realty-jwt-secret-key-change-in-production''\<rparr>"

section \<open>The libraries the handlers call\<close>

text \<open>
  jsonwebtoken, bcryptjs and mongoose are not part of the repository. What the handlers
  ask of them is taken as a parameter, so that every theorem below holds for whatever
  these functions compute:
  \<^item> \<open>jwt_sign payload secret expiresIn clock\<close> is \<^verbatim>\<open>jwt.sign(payload, secret, {expiresIn})\<close>
    called when the clock reads \<open>clock\<close>;
  \<^item> \<open>jwt_verify token secret clock\<close> is \<^verbatim>\<open>jwt.verify(token, secret)\<close>: the decoded payload,
    or \<open>None\<close> when it throws;
  \<^item> \<open>bcrypt_compare password hash\<close> is \<^verbatim>\<open>await bcrypt.compare(password, hash)\<close>, the
    password being whatever the body holds under that key (\<open>None\<close> for a missing key): the
    boolean, or \<open>None\<close> when the promise is rejected;
  \<^item> \<open>coerce\<close>, \<open>set_dotted\<close> and \<open>cast_update\<close> belong to mongoose and are described with
    the store.
\<close>

datatype ftype =
    TString
  | TNumber
  | TDateNow
  | TStringArray
  | TDocArray
  | TNested
  | TObjectId
  | TVersion

type_synonym schema = "(string \<times> ftype) list"

record libs =
  jwt_sign :: "obj \<Rightarrow> string \<Rightarrow> string \<Rightarrow> nat \<Rightarrow> string"
  jwt_verify :: "string \<Rightarrow> string \<Rightarrow> nat \<Rightarrow> obj option"
  bcrypt_compare :: "val option \<Rightarrow> string \<Rightarrow> bool option"
  coerce :: "ftype \<Rightarrow> val \<Rightarrow> val option"
  set_dotted :: "ftype \<Rightarrow> obj \<Rightarrow> val option"
  cast_update :: "schema \<Rightarrow> obj \<Rightarrow> (obj \<Rightarrow> obj) option"

text \<open>
  What is read from the surroundings while one request is served: the clock
  (\<^verbatim>\<open>Date.now()\<close> in the handler), the clock as mongoose reads it when it fills a
  \<^verbatim>\<open>default: Date.now\<close>, the identifier mongoose gives to a new document, and whether the
  store answers (when it does not, every store operation rejects and the handler's
  \<^verbatim>\<open>catch\<close> runs).
\<close>

record env =
  now :: nat
  default_now :: nat
  new_oid :: string
  db_up :: bool

section \<open>The JWT middleware\<close>

text \<open>\<^verbatim>\<open>s.split(" ")\<close>: the pieces between single spaces, empty pieces included; the result
  is never empty.\<close>

fun split_on :: "char \<Rightarrow> string \<Rightarrow> string list" where
  "split_on c [] = [[]]"
| "split_on c (x # xs) =
     (if x = c then [] # split_on c xs
      else (case split_on c xs of
              [] \<Rightarrow> [[x]]
            | w # ws \<Rightarrow> (x # w) # ws))"

text \<open>\<^verbatim>\<open>a[1]\<close> is \<^verbatim>\<open>undefined\<close> on an array of one element.\<close>

fun second :: "'a list \<Rightarrow> 'a option" where
  "second (a # b # rest) = Some b"
| "second xs = None"

text \<open>
  Line 103, \<^verbatim>\<open>req.headers.authorization?.split(" ")[1]\<close>, and the test \<^verbatim>\<open>!token\<close> of
  line 104: \<open>None\<close> is "no token", which an absent header, a header of one piece and an
  empty second piece all give.
\<close>

definition extract_token :: "string option \<Rightarrow> string option" where
  "extract_token h =
     (case h of
        None \<Rightarrow> None
      | Some s \<Rightarrow>
          (case second (split_on CHR '' '' s) of
             None \<Rightarrow> None
           | Some t \<Rightarrow> if t = [] then None else Some t))"

text \<open>
  \<^verbatim>\<open>verifyToken\<close> (lines 102 to 114). \<open>Inl\<close> is the response the middleware sends itself;
  \<open>Inr\<close> is the call of \<^verbatim>\<open>next()\<close>, with the request that now carries \<^verbatim>\<open>req.admin\<close>.
\<close>

definition verifyToken :: "libs \<Rightarrow> config \<Rightarrow> env \<Rightarrow> request \<Rightarrow> response + request" where
  "verifyToken L cfg e req =
     (case extract_token (authorization req) of
        None \<Rightarrow> Inl (res_error 401 ''No token provided'')
      | Some token \<Rightarrow>
          (case jwt_verify L token (jwt_secret cfg) (now e) of
             Some decoded \<Rightarrow> Inr (req\<lparr>admin := Some decoded\<rparr>)
           | None \<Rightarrow> Inl (res_error 401 ''Invalid token'')))"

section \<open>Login\<close>

text \<open>
  \<^verbatim>\<open>POST /api/auth/login\<close> (lines 126 to 157). \<^verbatim>\<open>email !== ADMIN_EMAIL\<close> is false only
  for the string equal to the configured email; \<^verbatim>\<open>!ADMIN_PASSWORD_HASH\<close> is true for the
  empty string. A rejected \<^verbatim>\<open>bcrypt.compare\<close> reaches the \<^verbatim>\<open>catch\<close>.
\<close>

definition login :: "libs \<Rightarrow> config \<Rightarrow> env \<Rightarrow> request \<Rightarrow> response" where
  "login L cfg e req =
     (let email = map_of (body req) ''email'';
          password = map_of (body req) ''password''
      in if email \<noteq> Some (JStr (admin_email cfg)) then
           res_error 401 ''Invalid email or password''
         else if admin_password_hash cfg = [] then
           res_error 401
             ''Admin password not configured. Please set ADMIN_PASSWORD_HASH in .env''
         else
           (case bcrypt_compare L password (admin_password_hash cfg) of
              None \<Rightarrow> res_error 500 ''Login failed''
            | Some isPasswordValid \<Rightarrow>
                if \<not> isPasswordValid then res_error 401 ''Invalid email or password''
                else
                  res_json (JObj
                    [(''success'', JBool True),
                     (''token'', JStr (jwt_sign L
                        [(''email'', JStr (admin_email cfg)), (''role'', JStr ''admin'')]
                        (jwt_secret cfg) ''24h'' (now e)))])))"

section \<open>The store\<close>

text \<open>
  The four schemas of lines 29 to 93, as the lists of their paths. \<open>TDateNow\<close> is
  \<^verbatim>\<open>{ type: Date, default: Date.now }\<close>, \<open>TStringArray\<close> is \<^verbatim>\<open>[String]\<close>, \<open>TDocArray\<close> the
  array of pricing tiers and \<open>TNested\<close> the nested construction details.
\<close>

definition propertySchema :: schema where
  "propertySchema =
     [(''id'', TString), (''title'', TString), (''location'', TString), (''price'', TString),
      (''beds'', TNumber), (''baths'', TNumber), (''sqft'', TNumber), (''image'', TString),
      (''type'', TString), (''tag'', TString), (''description'', TString),
      (''amenities'', TStringArray), (''gallery'', TStringArray), (''phone'', TString),
      (''longDescription'', TString), (''pricingTiers'', TDocArray),
      (''constructionDetails'', TNested), (''furnishedItems'', TStringArray),
      (''offers'', TStringArray), (''launchDate'', TString), (''possessionDate'', TString),
      (''totalUnits'', TNumber), (''soldOut'', TNumber), (''booked'', TNumber),
      (''available'', TNumber), (''createdAt'', TDateNow)]"

definition teamSchema :: schema where
  "teamSchema =
     [(''id'', TString), (''name'', TString), (''role'', TString), (''image'', TString),
      (''createdAt'', TDateNow)]"

definition contactSchema :: schema where
  "contactSchema =
     [(''id'', TString), (''name'', TString), (''email'', TString), (''message'', TString),
      (''created_at'', TDateNow)]"

definition leadSchema :: schema where
  "leadSchema =
     [(''id'', TString), (''name'', TString), (''email'', TString), (''phone'', TString),
      (''propertyType'', TString), (''budget'', TString), (''message'', TString),
      (''created_at'', TDateNow)]"

datatype model = Property | TeamMember | Contact | Lead

fun declared :: "model \<Rightarrow> schema" where
  "declared Property = propertySchema"
| "declared TeamMember = teamSchema"
| "declared Contact = contactSchema"
| "declared Lead = leadSchema"

text \<open>
  \<^verbatim>\<open>new mongoose.Schema(...)\<close> is called without options, so mongoose adds its own two paths
  to each schema, the identifier \<^verbatim>\<open>_id\<close> and the version key \<^verbatim>\<open>__v\<close>, and the schema is
  strict: a key of the input that is not a path of the schema is left out of the document.
\<close>

definition paths :: "model \<Rightarrow> schema" where
  "paths m = (''_id'', TObjectId) # declared m @ [(''__v'', TVersion)]"

text \<open>
  Casting a value to the type of its path. A string under a \<^verbatim>\<open>String\<close> path and a number
  under a \<^verbatim>\<open>Number\<close> path are kept as they are. Everything else is mongoose's coercion
  (a number to a string, an ISO string to a date, a \<^verbatim>\<open>CastError\<close> for an object where a
  string is declared, and so on), the parameter \<open>coerce\<close>, where \<open>None\<close> is the
  \<^verbatim>\<open>CastError\<close> that makes \<^verbatim>\<open>save()\<close> reject.
\<close>

fun cast :: "libs \<Rightarrow> ftype \<Rightarrow> val \<Rightarrow> val option" where
  "cast L TString (JStr s) = Some (JStr s)"
| "cast L TNumber (JNum n) = Some (JNum n)"
| "cast L t v = coerce L t v"

text \<open>The value of a path that the input leaves undefined: the declared default, the
  empty array that mongoose gives to every array path, a fresh identifier, version 0.\<close>

fun default_value :: "env \<Rightarrow> ftype \<Rightarrow> val option" where
  "default_value e TDateNow = Some (JDate (default_now e))"
| "default_value e TStringArray = Some (JArr [])"
| "default_value e TDocArray = Some (JArr [])"
| "default_value e TObjectId = Some (JOid (new_oid e))"
| "default_value e TVersion = Some (JNum 0)"
| "default_value e t = None"

text \<open>
  A key of the input may also be a dotted name. Mongoose reads \<^verbatim>\<open>p.rest\<close> as a path
  inside the value of \<open>p\<close> when \<open>p\<close> is a nested value or an array of the schema (the
  construction details, the pricing tiers and the string arrays of a property); a dotted
  name under any other path, or under no path, is not a path of the schema and is left
  out. What a nested value or an array becomes when dotted names lead into it is again
  mongoose's: the parameter \<open>set_dotted\<close>, from the entries of the input that name the path
  or lead into it, in their order, where \<open>None\<close> is a \<^verbatim>\<open>CastError\<close>.
\<close>

fun container :: "ftype \<Rightarrow> bool" where
  "container TStringArray = True"
| "container TDocArray = True"
| "container TNested = True"
| "container t = False"

definition leads_into :: "string \<Rightarrow> string \<Rightarrow> bool" where
  "leads_into p k \<longleftrightarrow> take (Suc (length p)) k = p @ ''.''"

definition dotted :: "string \<Rightarrow> obj \<Rightarrow> bool" where
  "dotted p b = (filter (\<lambda>(k, v). leads_into p k) b \<noteq> [])"

definition entries_for :: "string \<Rightarrow> obj \<Rightarrow> obj" where
  "entries_for p b = filter (\<lambda>(k, v). k = p \<or> leads_into p k) b"

text \<open>What the input gives to a path: nothing (\<open>None\<close>), a cast error (\<open>Some None\<close>) or a
  value.\<close>

definition given :: "libs \<Rightarrow> obj \<Rightarrow> string \<Rightarrow> ftype \<Rightarrow> val option option" where
  "given L b k t =
     (if container t \<and> dotted k b then Some (set_dotted L t (entries_for k b))
      else map_option (cast L t) (map_of b k))"

text \<open>
  The document is built path by path, in the order of the schema: a path that the input
  sets holds the cast value, a path that it leaves undefined holds its default, if it has
  one; \<open>None\<close> when a cast fails.
\<close>

fun build :: "libs \<Rightarrow> env \<Rightarrow> obj \<Rightarrow> schema \<Rightarrow> obj option" where
  "build L e b [] = Some []"
| "build L e b ((k, t) # ps) =
     (case given L b k t of
        None \<Rightarrow>
          (case build L e b ps of
             None \<Rightarrow> None
           | Some d \<Rightarrow>
               Some ((case default_value e t of None \<Rightarrow> [] | Some v \<Rightarrow> [(k, v)]) @ d))
      | Some None \<Rightarrow> None
      | Some (Some v') \<Rightarrow>
          (case build L e b ps of
             None \<Rightarrow> None
           | Some d \<Rightarrow> Some ((k, v') # d)))"

text \<open>\<^verbatim>\<open>new Model(obj)\<close>: the document, or \<open>None\<close> for a document that holds a cast error
  (which \<^verbatim>\<open>save()\<close> then raises).\<close>

definition new_Model :: "libs \<Rightarrow> env \<Rightarrow> model \<Rightarrow> obj \<Rightarrow> obj option" where
  "new_Model L e m b = build L e b (paths m)"

text \<open>The keys of an input that \<^verbatim>\<open>new Model\<close> reads: the paths of the schema, and the
  dotted names that lead into one of its nested values or arrays. Every other key is
  unknown to the schema.\<close>

definition is_path :: "model \<Rightarrow> string \<Rightarrow> bool" where
  "is_path m k \<longleftrightarrow>
     map_of (paths m) k \<noteq> None \<or>
     filter (\<lambda>(p, t). container t \<and> leads_into p k) (paths m) \<noteq> []"

record store =
  properties :: "obj list"
  teammembers :: "obj list"
  contacts :: "obj list"
  leads :: "obj list"

fun docs :: "model \<Rightarrow> store \<Rightarrow> obj list" where
  "docs Property st = properties st"
| "docs TeamMember st = teammembers st"
| "docs Contact st = contacts st"
| "docs Lead st = leads st"

fun set_docs :: "model \<Rightarrow> obj list \<Rightarrow> store \<Rightarrow> store" where
  "set_docs Property ds st = st\<lparr>properties := ds\<rparr>"
| "set_docs TeamMember ds st = st\<lparr>teammembers := ds\<rparr>"
| "set_docs Contact ds st = st\<lparr>contacts := ds\<rparr>"
| "set_docs Lead ds st = st\<lparr>leads := ds\<rparr>"

text \<open>
  The store operations. Each gives \<open>None\<close> where the promise is rejected. The filter of
  every query of the source is \<^verbatim>\<open>{ id: req.params.id }\<close>; where several documents match,
  the operations that act on one document act on the first.
\<close>

definition save :: "env \<Rightarrow> model \<Rightarrow> obj option \<Rightarrow> store \<Rightarrow> (obj \<times> store) option" where
  "save e m doc st =
     (case doc of
        None \<Rightarrow> None
      | Some d \<Rightarrow> if db_up e then Some (d, set_docs m (docs m st @ [d]) st) else None)"

text \<open>
  A query does not hand back the stored record but the mongoose document made from it
  (this is what \<^verbatim>\<open>res.json\<close> then sends): every field of the record, and, for a declared
  path with a default that the record does not hold, the default, filled in when the
  document is made. The record in the store is not changed by that.
\<close>

definition filled_in :: "env \<Rightarrow> obj \<Rightarrow> schema \<Rightarrow> obj" where
  "filled_in e d sch =
     concat (map (\<lambda>(k, t). case map_of d k of
                              Some v \<Rightarrow> []
                            | None \<Rightarrow> (case default_value e t of
                                         None \<Rightarrow> []
                                       | Some v \<Rightarrow> [(k, v)])) sch)"

definition hydrate :: "env \<Rightarrow> model \<Rightarrow> obj \<Rightarrow> obj" where
  "hydrate e m d = d @ filled_in e d (declared m)"

definition find_all :: "env \<Rightarrow> model \<Rightarrow> store \<Rightarrow> obj list option" where
  "find_all e m st = (if db_up e then Some (map (hydrate e m) (docs m st)) else None)"

definition matches :: "string \<Rightarrow> obj \<Rightarrow> bool" where
  "matches i d = (map_of d ''id'' = Some (JStr i))"

definition findOne :: "env \<Rightarrow> model \<Rightarrow> string \<Rightarrow> store \<Rightarrow> obj option option" where
  "findOne e m i st =
     (if db_up e then Some (map_option (hydrate e m) (List.find (matches i) (docs m st)))
      else None)"

fun update_first :: "(obj \<Rightarrow> bool) \<Rightarrow> (obj \<Rightarrow> obj) \<Rightarrow> obj list \<Rightarrow> obj list" where
  "update_first P f [] = []"
| "update_first P f (d # ds) = (if P d then f d # ds else d # update_first P f ds)"

fun delete_first :: "(obj \<Rightarrow> bool) \<Rightarrow> obj list \<Rightarrow> obj list" where
  "delete_first P [] = []"
| "delete_first P (d # ds) = (if P d then ds else d # delete_first P ds)"

text \<open>
  \<^verbatim>\<open>Model.findOneAndUpdate(filter, update, { new })\<close>. Mongoose casts the update against the
  schema before it queries: the parameter \<open>cast_update\<close> gives the change that the update
  makes to the matched record, or \<open>None\<close> for a \<^verbatim>\<open>CastError\<close>. The result is the document
  of the matched record, before the change or (with \<^verbatim>\<open>new: true\<close>) after it, and \<^verbatim>\<open>null\<close>
  without a match; nothing is inserted then.
\<close>

definition findOneAndUpdate ::
  "libs \<Rightarrow> env \<Rightarrow> model \<Rightarrow> string \<Rightarrow> obj \<Rightarrow> bool \<Rightarrow> store \<Rightarrow> (obj option \<times> store) option" where
  "findOneAndUpdate L e m i upd return_new st =
     (case cast_update L (paths m) upd of
        None \<Rightarrow> None
      | Some f \<Rightarrow>
          if \<not> db_up e then None
          else
            (case List.find (matches i) (docs m st) of
               None \<Rightarrow> Some (None, st)
             | Some d \<Rightarrow>
                 Some (Some (hydrate e m (if return_new then f d else d)),
                       set_docs m (update_first (matches i) f (docs m st)) st)))"

definition deleteOne :: "env \<Rightarrow> model \<Rightarrow> string \<Rightarrow> store \<Rightarrow> store option" where
  "deleteOne e m i st =
     (if db_up e then Some (set_docs m (delete_first (matches i) (docs m st)) st) else None)"

text \<open>
  \<^verbatim>\<open>.sort({ created_at: -1 })\<close>: descending by the date under \<^verbatim>\<open>created_at\<close>; a record
  with no date there sorts as the smallest. The order among equal dates is the store's
  choice; the model makes one, and no theorem below depends on it. The store sorts the
  records; the documents are made from them afterwards.
\<close>

definition created_key :: "obj \<Rightarrow> nat" where
  "created_key d = (case map_of d ''created_at'' of Some (JDate t) \<Rightarrow> Suc t | _ \<Rightarrow> 0)"

definition sort_newest_first :: "obj list \<Rightarrow> obj list" where
  "sort_newest_first ds = rev (sort_key created_key ds)"

definition find_sorted :: "env \<Rightarrow> model \<Rightarrow> store \<Rightarrow> obj list option" where
  "find_sorted e m st =
     (if db_up e then Some (map (hydrate e m) (sort_newest_first (docs m st))) else None)"

section \<open>The handlers\<close>

text \<open>\<^verbatim>\<open>Date.now().toString()\<close>: the decimal digits of the clock.\<close>

fun string_of_nat :: "nat \<Rightarrow> string" where
  "string_of_nat n =
     (if n < 10 then [''0123456789'' ! n]
      else string_of_nat (n div 10) @ [''0123456789'' ! (n mod 10)])"

declare string_of_nat.simps [simp del]

type_synonym handler = "request \<Rightarrow> store \<Rightarrow> response \<times> store"

definition docs_json :: "obj list \<Rightarrow> val" where
  "docs_json ds = JArr (map JObj ds)"

definition get_properties :: "env \<Rightarrow> handler" where
  "get_properties e req st =
     (case find_all e Property st of
        None \<Rightarrow> (res_error 500 ''Failed to fetch properties'', st)
      | Some ds \<Rightarrow> (res_json (docs_json ds), st))"

definition post_properties :: "libs \<Rightarrow> env \<Rightarrow> handler" where
  "post_properties L e req st =
     (case save e Property (new_Model L e Property (body req)) st of
        None \<Rightarrow> (res_error 500 ''Failed to create property'', st)
      | Some (d, st') \<Rightarrow> (res_data d, st'))"

definition get_property :: "env \<Rightarrow> handler" where
  "get_property e req st =
     (case findOne e Property (param_id req) st of
        None \<Rightarrow> (res_error 500 ''Failed to fetch property'', st)
      | Some None \<Rightarrow> (res_error 404 ''Property not found'', st)
      | Some (Some d) \<Rightarrow> (res_json (JObj d), st))"

definition put_property :: "libs \<Rightarrow> env \<Rightarrow> handler" where
  "put_property L e req st =
     (case findOneAndUpdate L e Property (param_id req) (body req) False st of
        None \<Rightarrow> (res_error 500 ''Failed to update property'', st)
      | Some (found, st') \<Rightarrow> (res_success, st'))"

definition delete_property :: "env \<Rightarrow> handler" where
  "delete_property e req st =
     (case deleteOne e Property (param_id req) st of
        None \<Rightarrow> (res_error 500 ''Failed to delete property'', st)
      | Some st' \<Rightarrow> (res_success, st'))"

definition get_team :: "env \<Rightarrow> handler" where
  "get_team e req st =
     (case find_all e TeamMember st of
        None \<Rightarrow> (res_error 500 ''Failed to fetch team'', st)
      | Some ds \<Rightarrow> (res_json (docs_json ds), st))"

definition post_team :: "libs \<Rightarrow> env \<Rightarrow> handler" where
  "post_team L e req st =
     (case save e TeamMember (new_Model L e TeamMember (body req)) st of
        None \<Rightarrow> (res_error 500 ''Failed to create team member'', st)
      | Some (d, st') \<Rightarrow> (res_data d, st'))"

definition put_team :: "libs \<Rightarrow> env \<Rightarrow> handler" where
  "put_team L e req st =
     (case findOneAndUpdate L e TeamMember (param_id req) (body req) True st of
        None \<Rightarrow> (res_error 500 ''Failed to update team member'', st)
      | Some (None, st') \<Rightarrow> (res_error 404 ''Team member not found'', st')
      | Some (Some updated, st') \<Rightarrow> (res_data updated, st'))"

definition delete_team :: "env \<Rightarrow> handler" where
  "delete_team e req st =
     (case deleteOne e TeamMember (param_id req) st of
        None \<Rightarrow> (res_error 500 ''Failed to delete team member'', st)
      | Some st' \<Rightarrow> (res_success, st'))"

text \<open>\<^verbatim>\<open>{ ...req.body, id: Date.now().toString() }\<close> (lines 253 to 256 and 276 to 279).\<close>

definition with_generated_id :: "env \<Rightarrow> obj \<Rightarrow> obj" where
  "with_generated_id e b = AList.update ''id'' (JStr (string_of_nat (now e))) b"

definition post_contact :: "libs \<Rightarrow> env \<Rightarrow> handler" where
  "post_contact L e req st =
     (case save e Contact (new_Model L e Contact (with_generated_id e (body req))) st of
        None \<Rightarrow> (res_error 500 ''Failed to submit contact form'', st)
      | Some (d, st') \<Rightarrow> (res_data d, st'))"

definition get_contact :: "env \<Rightarrow> handler" where
  "get_contact e req st =
     (case find_sorted e Contact st of
        None \<Rightarrow> (res_error 500 ''Failed to fetch contacts'', st)
      | Some ds \<Rightarrow> (res_json (docs_json ds), st))"

definition post_leads :: "libs \<Rightarrow> env \<Rightarrow> handler" where
  "post_leads L e req st =
     (case save e Lead (new_Model L e Lead (with_generated_id e (body req))) st of
        None \<Rightarrow> (res_error 500 ''Failed to submit lead form'', st)
      | Some (d, st') \<Rightarrow> (res_data d, st'))"

definition get_leads :: "env \<Rightarrow> handler" where
  "get_leads e req st =
     (case find_sorted e Lead st of
        None \<Rightarrow> (res_error 500 ''Failed to fetch leads'', st)
      | Some ds \<Rightarrow> (res_json (docs_json ds), st))"

section \<open>The routes\<close>

text \<open>
  A route registered as \<^verbatim>\<open>app.post(path, verifyToken, handler)\<close> runs the middleware first;
  the handler runs only when the middleware calls \<^verbatim>\<open>next()\<close>, on the request the
  middleware passes on.
\<close>

definition guarded :: "libs \<Rightarrow> config \<Rightarrow> env \<Rightarrow> handler \<Rightarrow> handler" where
  "guarded L cfg e h req st =
     (case verifyToken L cfg e req of
        Inl r \<Rightarrow> (r, st)
      | Inr req' \<Rightarrow> h req' st)"

datatype route =
    PostLogin
  | GetProperties | PostProperties | GetProperty | PutProperty | DeleteProperty
  | GetTeam | PostTeam | PutTeam | DeleteTeam
  | PostContact | GetContact
  | PostLeads | GetLeads

fun app :: "libs \<Rightarrow> config \<Rightarrow> env \<Rightarrow> route \<Rightarrow> handler" where
  "app L cfg e PostLogin req st = (login L cfg e req, st)"
| "app L cfg e GetProperties req st = get_properties e req st"
| "app L cfg e PostProperties req st = guarded L cfg e (post_properties L e) req st"
| "app L cfg e GetProperty req st = get_property e req st"
| "app L cfg e PutProperty req st = guarded L cfg e (put_property L e) req st"
| "app L cfg e DeleteProperty req st = guarded L cfg e (delete_property e) req st"
| "app L cfg e GetTeam req st = get_team e req st"
| "app L cfg e PostTeam req st = guarded L cfg e (post_team L e) req st"
| "app L cfg e PutTeam req st = guarded L cfg e (put_team L e) req st"
| "app L cfg e DeleteTeam req st = guarded L cfg e (delete_team e) req st"
| "app L cfg e PostContact req st = post_contact L e req st"
| "app L cfg e GetContact req st = get_contact e req st"
| "app L cfg e PostLeads req st = post_leads L e req st"
| "app L cfg e GetLeads req st = guarded L cfg e (get_leads e) req st"

text \<open>The protected mutating endpoints: POST, PUT and DELETE on properties and team.\<close>

fun protected_mutating :: "route \<Rightarrow> bool" where
  "protected_mutating PostProperties = True"
| "protected_mutating PutProperty = True"
| "protected_mutating DeleteProperty = True"
| "protected_mutating PostTeam = True"
| "protected_mutating PutTeam = True"
| "protected_mutating DeleteTeam = True"
| "protected_mutating r = False"

section \<open>The token service\<close>

definition day :: nat where
  "day = 24 * 60 * 60 * 1000"

text \<open>
  Modelled from the spec: the Token Service, which is jsonwebtoken's \<^verbatim>\<open>sign\<close> and
  \<^verbatim>\<open>verify\<close> and is not under \<^verbatim>\<open>src/\<close>. The spec (4.2 and the glossary) says of it:
  \<^item> issue signs the payload "plus an expiry timestamp 24 hours ahead of issuance" and
    "returns an opaque string", which is sent as \<^verbatim>\<open>Bearer <token>\<close>: the string is not empty
    and holds no space;
  \<^item> verify "returns the decoded identity claims on success";
  \<^item> "any signature mismatch, malformed token, or expiry in the past yields Rejected", and a
    token is accepted "for exactly 24 hours from issuance".
  The predicate says this of the tokens issued for one payload under one secret with the
  option \<^verbatim>\<open>expiresIn: "24h"\<close>, on the clock that both calls read. (jsonwebtoken counts in
  whole seconds and rejects from the second of expiry on; the spec does not go into that,
  and neither does the predicate.)
\<close>

definition token_service :: "libs \<Rightarrow> obj \<Rightarrow> string \<Rightarrow> bool" where
  "token_service L payload secret \<longleftrightarrow>
     (\<forall>issued.
        jwt_sign L payload secret ''24h'' issued \<noteq> [] \<and>
        CHR '' '' \<notin> set (jwt_sign L payload secret ''24h'' issued) \<and>
        (\<forall>t. issued \<le> t \<and> t \<le> issued + day \<longrightarrow>
           (\<exists>d. jwt_verify L (jwt_sign L payload secret ''24h'' issued) secret t = Some d \<and>
                map_of d ''email'' = map_of payload ''email'' \<and>
                map_of d ''role'' = map_of payload ''role'')) \<and>
        (\<forall>t. issued + day < t \<longrightarrow>
           jwt_verify L (jwt_sign L payload secret ''24h'' issued) secret t = None))"

section \<open>The contact form\<close>

text \<open>
  A well-formed body of \<^verbatim>\<open>POST /api/contact\<close>: the form's three fields are strings, and
  the body sets none of the paths that the server fills (\<^verbatim>\<open>created_at\<close>, \<^verbatim>\<open>_id\<close>,
  \<^verbatim>\<open>__v\<close>). Other keys, an \<^verbatim>\<open>id\<close> among them, may be present.
\<close>

definition contact_form :: "obj \<Rightarrow> string \<Rightarrow> string \<Rightarrow> string \<Rightarrow> bool" where
  "contact_form b name email message \<longleftrightarrow>
     map_of b ''name'' = Some (JStr name) \<and>
     map_of b ''email'' = Some (JStr email) \<and>
     map_of b ''message'' = Some (JStr message) \<and>
     map_of b ''created_at'' = None \<and>
     map_of b ''_id'' = None \<and>
     map_of b ''__v'' = None"

section \<open>An instance of the libraries\<close>

text \<open>
  One concrete choice of the library parameters, at which statements are evaluated. Its
  token is the expiry instant in decimal digits and it knows the administrator of the
  default configuration only; its password hash is the password behind a fixed prefix;
  it coerces nothing (every value that is not already of the declared type, and every
  dotted name into a nested value or an array, is a \<^verbatim>\<open>CastError\<close>); its update sets the
  fields of the body that are paths of the schema.
\<close>

definition is_digit :: "char \<Rightarrow> bool" where
  "is_digit c = (c \<in> set ''0123456789'')"

definition digit_value :: "char \<Rightarrow> nat" where
  "digit_value c = of_char c - 48"

definition nat_of_string :: "string \<Rightarrow> nat" where
  "nat_of_string s = foldl (\<lambda>a c. 10 * a + digit_value c) 0 s"

definition demo_sign :: "obj \<Rightarrow> string \<Rightarrow> string \<Rightarrow> nat \<Rightarrow> string" where
  "demo_sign payload secret expiresIn t = string_of_nat (t + day)"

definition demo_verify :: "string \<Rightarrow> string \<Rightarrow> nat \<Rightarrow> obj option" where
  "demo_verify token secret t =
     (if token \<noteq> [] \<and> list_all is_digit token \<and> t \<le> nat_of_string token
      then Some [(''email'', JStr ''admin@ssprealty.com''), (''role'', JStr ''admin'')]
      else None)"

definition demo_compare :: "val option \<Rightarrow> string \<Rightarrow> bool option" where
  "demo_compare password hash =
     (case password of
        Some (JStr s) \<Rightarrow> Some (hash = ''hash of '' @ s)
      | _ \<Rightarrow> None)"

definition demo_cast_update :: "schema \<Rightarrow> obj \<Rightarrow> (obj \<Rightarrow> obj) option" where
  "demo_cast_update sch upd =
     Some (\<lambda>d. fold (\<lambda>(k, v) d'. AList.update k v d')
                  (filter (\<lambda>(k, v). map_of sch k \<noteq> None) upd) d)"

definition demo_libs :: libs where
  "demo_libs =
     \<lparr>jwt_sign = demo_sign, jwt_verify = demo_verify, bcrypt_compare = demo_compare,
      coerce = (\<lambda>t v. None), set_dotted = (\<lambda>t es. None),
      cast_update = demo_cast_update\<rparr>"

definition demo_config :: config where
  "demo_config = load_config [''ADMIN_PASSWORD_HASH'' \<mapsto> ''hash of hunter2'']"

definition demo_env :: env where
  "demo_env = \<lparr>now = 1700000000000, default_now = 1700000000001,
                new_oid = ''65f0c0ffee'', db_up = True\<rparr>"

definition demo_request :: request where
  "demo_request = \<lparr>authorization = None, param_id = ''42'', body = [], admin = None\<rparr>"

definition empty_store :: store where
  "empty_store = \<lparr>properties = [], teammembers = [], contacts = [], leads = []\<rparr>"

text \<open>A request that carries, as \<^verbatim>\<open>Bearer <token>\<close>, the token that the instance issues
  at the clock of \<open>demo_env\<close>, and the claims that token stands for.\<close>

definition demo_bearer :: request where
  "demo_bearer = demo_request\<lparr>authorization := Some ''Bearer 1700086400000''\<rparr>"

definition demo_admin :: obj where
  "demo_admin = [(''email'', JStr ''admin@ssprealty.com''), (''role'', JStr ''admin'')]"

section \<open>Facts about the pieces of the model\<close>

lemma split_on_not_Nil: "split_on c s \<noteq> []"
  by (induction s) (auto split: list.splits)

lemma split_on_none: "c \<notin> set w \<Longrightarrow> split_on c w = [w]"
  by (induction w) auto

lemma split_on_append: "c \<notin> set w \<Longrightarrow> split_on c (w @ c # rest) = w # split_on c rest"
  by (induction w) auto

lemma hd_split_on: "hd (split_on c s) = takeWhile (\<lambda>x. x \<noteq> c) s"
  by (induction s) (auto simp: split_on_not_Nil split: list.splits)

text \<open>The token of a header whose first piece is any word at all: the second piece, up
  to the next space.\<close>

lemma extract_token_scheme:
  assumes "CHR '' '' \<notin> set scheme"
  shows "extract_token (Some (scheme @ '' '' @ rest)) =
           (if takeWhile (\<lambda>x. x \<noteq> CHR '' '') rest = [] then None
            else Some (takeWhile (\<lambda>x. x \<noteq> CHR '' '') rest))"
proof -
  have "split_on CHR '' '' (scheme @ '' '' @ rest) = scheme # split_on CHR '' '' rest"
    using split_on_append[OF assms, of rest] by simp
  moreover obtain t ts where "split_on CHR '' '' rest = t # ts"
    using split_on_not_Nil[of "CHR '' ''" rest] by (cases "split_on CHR '' '' rest") auto
  moreover from this have "t = takeWhile (\<lambda>x. x \<noteq> CHR '' '') rest"
    using hd_split_on[of "CHR '' ''" rest] by simp
  ultimately show ?thesis by (simp add: extract_token_def)
qed

lemma string_of_nat_not_Nil: "string_of_nat n \<noteq> []"
  by (subst string_of_nat.simps) simp

lemma digit_nth:
  "k < 10 \<Longrightarrow> is_digit (''0123456789'' ! k) \<and> digit_value (''0123456789'' ! k) = k"
proof -
  assume "k < 10"
  then have "k \<in> {0, 1, 2, 3, 4, 5, 6, 7, 8, 9}" by auto
  then show ?thesis by (auto simp: is_digit_def digit_value_def)
qed

lemma digits_string_of_nat: "list_all is_digit (string_of_nat n)"
proof (induction n rule: string_of_nat.induct)
  case (1 n)
  show ?case
  proof (cases "n < 10")
    case True
    then show ?thesis using digit_nth[of n] by (subst string_of_nat.simps) simp
  next
    case False
    then have "list_all is_digit (string_of_nat (n div 10))" using 1 by simp
    moreover have "is_digit (''0123456789'' ! (n mod 10))"
      using digit_nth[of "n mod 10"] by simp
    ultimately show ?thesis using False by (subst string_of_nat.simps) simp
  qed
qed

lemma nat_of_string_of_nat: "nat_of_string (string_of_nat n) = n"
proof (induction n rule: string_of_nat.induct)
  case (1 n)
  show ?case
  proof (cases "n < 10")
    case True
    then show ?thesis using digit_nth[of n]
      by (subst string_of_nat.simps) (simp add: nat_of_string_def)
  next
    case False
    then have "nat_of_string (string_of_nat (n div 10)) = n div 10" using 1 by simp
    moreover have "digit_value (''0123456789'' ! (n mod 10)) = n mod 10"
      using digit_nth[of "n mod 10"] by simp
    ultimately show ?thesis using False
      by (subst string_of_nat.simps) (simp add: nat_of_string_def)
  qed
qed

lemma no_space_digits: "list_all is_digit s \<Longrightarrow> CHR '' '' \<notin> set s"
  by (induction s) (auto simp: is_digit_def)

text \<open>The instance of the libraries is a token service in the sense of the spec.\<close>

lemma demo_token_service:
  "token_service demo_libs
     [(''email'', JStr ''admin@ssprealty.com''), (''role'', JStr ''admin'')] secret"
  unfolding token_service_def
  by (simp add: demo_libs_def demo_sign_def demo_verify_def string_of_nat_not_Nil
      digits_string_of_nat nat_of_string_of_nat no_space_digits)

lemma extract_bearer:
  assumes "token \<noteq> []" "CHR '' '' \<notin> set token"
  shows "extract_token (Some (''Bearer '' @ token)) = Some token"
proof -
  have nosp: "CHR '' '' \<notin> set ''Bearer''" by simp
  have tw: "takeWhile (\<lambda>x. x \<noteq> CHR '' '') token = token"
    using assms(2) by (induction token) auto
  have shape: "''Bearer '' @ token = ''Bearer'' @ '' '' @ token" by simp
  show ?thesis
    by (simp only: shape extract_token_scheme[OF nosp] tw assms(1) if_False)
qed

lemma map_of_with_generated_id:
  "map_of (with_generated_id e b) k =
     (if k = ''id'' then Some (JStr (string_of_nat (now e))) else map_of b k)"
  by (simp add: with_generated_id_def update_conv')

lemma filter_update_other:
  "\<not> P k \<Longrightarrow>
   filter (\<lambda>(k', v'). P k') (AList.update k v b) = filter (\<lambda>(k', v'). P k') b"
  by (induction b) auto

lemma leads_into_dot: "leads_into p k \<Longrightarrow> CHR ''.'' \<in> set k"
proof -
  assume "leads_into p k"
  then have "CHR ''.'' \<in> set (take (Suc (length p)) k)"
    by (simp add: leads_into_def)
  then show ?thesis by (rule in_set_takeD)
qed

text \<open>A key that is neither the path nor, for a nested value or an array, a dotted name
  into it, changes nothing of what the input gives to the path.\<close>

lemma given_update_other:
  assumes "k \<noteq> p" and "container t \<Longrightarrow> \<not> leads_into p k"
  shows "given L (AList.update k v b) p t = given L b p t"
proof (cases "container t")
  case True
  with assms(2) have no: "\<not> leads_into p k" by simp
  with assms(1) have no': "\<not> (k = p \<or> leads_into p k)" by simp
  show ?thesis
    using filter_update_other[of "leads_into p" k v b]
      filter_update_other[of "\<lambda>k'. k' = p \<or> leads_into p k'" k v b] no no' assms(1)
    by (simp add: given_def dotted_def entries_for_def update_conv')
next
  case False
  with assms(1) show ?thesis
    by (simp add: given_def update_conv')
qed

lemma given_with_generated_id:
  "p \<noteq> ''id'' \<Longrightarrow> given L (with_generated_id e b) p t = given L b p t"
  "given L (with_generated_id e b) ''id'' TString =
     Some (Some (JStr (string_of_nat (now e))))"
proof -
  have "\<not> leads_into p ''id''"
    using leads_into_dot[of p "''id''"] by auto
  then show "p \<noteq> ''id'' \<Longrightarrow> given L (with_generated_id e b) p t = given L b p t"
    unfolding with_generated_id_def by (intro given_update_other) auto
  show "given L (with_generated_id e b) ''id'' TString =
     Some (Some (JStr (string_of_nat (now e))))"
    by (simp add: given_def map_of_with_generated_id)
qed

lemma build_cong:
  "(\<And>k t. (k, t) \<in> set sch \<Longrightarrow> given L b k t = given L b' k t) \<Longrightarrow>
   build L e b sch = build L e b' sch"
proof (induction sch)
  case Nil
  then show ?case by simp
next
  case (Cons p ps)
  obtain k t where p: "p = (k, t)" by (cases p)
  have rest: "build L e b ps = build L e b' ps"
    using Cons.IH Cons.prems by simp
  have "given L b k t = given L b' k t"
    using Cons.prems[of k t] by (simp add: p)
  then show ?case by (simp add: p rest cong: option.case_cong)
qed

lemma build_keys: "build L e b sch = Some d \<Longrightarrow> fst ` set d \<subseteq> fst ` set sch"
proof (induction sch arbitrary: d)
  case Nil
  then show ?case by simp
next
  case (Cons p ps)
  obtain k t where p: "p = (k, t)" by (cases p)
  from Cons.prems obtain d' where d': "build L e b ps = Some d'"
    by (auto simp: p split: option.splits)
  from Cons.prems d' have "fst ` set d \<subseteq> insert k (fst ` set d')"
    by (auto simp: p split: option.splits)
  also have "\<dots> \<subseteq> insert k (fst ` set ps)"
    using Cons.IH[OF d'] by blast
  finally show ?case by (simp add: p)
qed

lemma build_lookup:
  "distinct (map fst sch) \<Longrightarrow> build L e b sch = Some d \<Longrightarrow> (k, t) \<in> set sch \<Longrightarrow>
   map_of d k = (case given L b k t of None \<Rightarrow> default_value e t | Some c \<Rightarrow> c)"
proof (induction sch arbitrary: d)
  case Nil
  then show ?case by simp
next
  case (Cons p ps)
  obtain k' t' where p: "p = (k', t')" by (cases p)
  from Cons.prems(2) obtain d' where d': "build L e b ps = Some d'"
    by (auto simp: p split: option.splits)
  have keys: "fst ` set d' \<subseteq> fst ` set ps" using build_keys[OF d'] .
  show ?case
  proof (cases "k = k'")
    case True
    with Cons.prems(1,3) p have t: "t = t'" by (auto simp: image_iff)
    from Cons.prems(1) p keys have "k' \<notin> fst ` set d'" by auto
    then have "map_of d' k' = None" by (simp add: map_of_eq_None_iff)
    with Cons.prems(2) d' True t show ?thesis
      by (auto simp: p split: option.splits)
  next
    case False
    with Cons.prems(3) p have "(k, t) \<in> set ps" by auto
    with Cons.IH[OF _ d'] Cons.prems(1) have
      "map_of d' k = (case given L b k t of None \<Rightarrow> default_value e t | Some c \<Rightarrow> c)"
      by simp
    with Cons.prems(2) d' False show ?thesis
      by (auto simp: p split: option.splits)
  qed
qed

lemma distinct_paths: "distinct (map fst (paths m))"
  by (cases m)
    (simp_all add: paths_def propertySchema_def teamSchema_def contactSchema_def leadSchema_def)

lemma id_is_a_path: "(''id'', TString) \<in> set (paths m)"
  by (cases m)
    (simp_all add: paths_def propertySchema_def teamSchema_def contactSchema_def leadSchema_def)

lemma sorted_newest_first:
  "sorted_wrt (\<lambda>a b. created_key b \<le> created_key a) (sort_newest_first ds)"
proof -
  have "sorted (map created_key (sort_key created_key ds))" by simp
  then have "sorted_wrt (\<lambda>a b. created_key a \<le> created_key b) (sort_key created_key ds)"
    by (simp add: sorted_map)
  then show ?thesis
    by (simp add: sort_newest_first_def sorted_wrt_rev)
qed

lemma mset_newest_first: "mset (sort_newest_first ds) = mset ds"
  by (simp add: sort_newest_first_def)

lemma newest_is_first:
  assumes "d \<in> set ds" and "\<forall>c \<in> set ds. c \<noteq> d \<longrightarrow> created_key c < created_key d"
  shows "\<exists>rest. sort_newest_first ds = d # rest"
proof (cases "sort_newest_first ds")
  case Nil
  then have "mset ds = {#}" using mset_newest_first[of ds] by simp
  with assms(1) show ?thesis by simp
next
  case (Cons x rest)
  have set_eq: "set (sort_newest_first ds) = set ds"
    using mset_newest_first[of ds] by (metis set_mset_mset)
  then have x: "x \<in> set ds" using Cons by auto
  have "x = d"
  proof (rule ccontr)
    assume ne: "x \<noteq> d"
    then have lt: "created_key x < created_key d" using assms(2) x by blast
    from ne set_eq assms(1) Cons have "d \<in> set rest" by auto
    moreover from sorted_newest_first[of ds] Cons
    have "\<forall>y \<in> set rest. created_key y \<le> created_key x" by simp
    ultimately show False using lt by auto
  qed
  with Cons show ?thesis by simp
qed

lemma id_type: "(''id'', t) \<in> set (paths m) \<Longrightarrow> t = TString"
  using eq_key_imp_eq_value[OF distinct_paths _ id_is_a_path] by blast

lemma given_generated_id_path:
  assumes "(p, t) \<in> set (paths m)"
  shows "given L (with_generated_id e b) p t =
           (if p = ''id'' then Some (Some (JStr (string_of_nat (now e)))) else given L b p t)"
proof (cases "p = ''id''")
  case True
  with assms id_type have "t = TString" by blast
  with True show ?thesis by (simp add: given_with_generated_id(2))
next
  case False
  then show ?thesis by (simp add: given_with_generated_id(1))
qed

lemma unknown_key_given:
  assumes "\<not> is_path m k" and "(p, t) \<in> set (paths m)"
  shows "given L (AList.update k v b) p t = given L b p t"
proof (rule given_update_other)
  from assms show "k \<noteq> p"
    by (auto simp: is_path_def map_of_eq_None_iff image_iff)
  from assms show "\<not> leads_into p k" if "container t"
    using that by (auto simp: is_path_def filter_empty_conv)
qed

lemma new_Model_unknown_key:
  assumes "\<not> is_path m k"
  shows "new_Model L e m (AList.update k v b) = new_Model L e m b"
    and "new_Model L e m (with_generated_id e (AList.update k v b)) =
         new_Model L e m (with_generated_id e b)"
proof -
  show "new_Model L e m (AList.update k v b) = new_Model L e m b"
    unfolding new_Model_def
    by (rule build_cong) (rule unknown_key_given[OF assms])
  show "new_Model L e m (with_generated_id e (AList.update k v b)) =
        new_Model L e m (with_generated_id e b)"
    unfolding new_Model_def
    by (rule build_cong) (simp add: given_generated_id_path unknown_key_given[OF assms])
qed

lemma new_Model_no_unknown_key:
  assumes "\<not> is_path m k" "new_Model L e m b = Some d"
  shows "map_of d k = None"
proof -
  from assms(2) have "fst ` set d \<subseteq> fst ` set (paths m)"
    unfolding new_Model_def by (rule build_keys)
  moreover from assms(1) have "k \<notin> fst ` set (paths m)"
    by (simp add: is_path_def map_of_eq_None_iff)
  ultimately show ?thesis by (auto simp: map_of_eq_None_iff)
qed

lemma new_Model_generated_id:
  assumes "new_Model L e m (with_generated_id e b) = Some d"
  shows "map_of d ''id'' = Some (JStr (string_of_nat (now e)))"
  using build_lookup[OF distinct_paths assms[unfolded new_Model_def] id_is_a_path]
  by (simp add: given_with_generated_id(2))

lemma new_Model_ignores_given_id:
  "new_Model L e m (with_generated_id e (AList.update ''id'' x b)) =
   new_Model L e m (with_generated_id e b)"
  unfolding new_Model_def
proof (rule build_cong)
  fix p t assume "(p, t) \<in> set (paths m)"
  moreover have "given L (AList.update ''id'' x b) p t = given L b p t" if "p \<noteq> ''id''"
    using that leads_into_dot[of p "''id''"] by (intro given_update_other) auto
  ultimately show "given L (with_generated_id e (AList.update ''id'' x b)) p t =
                   given L (with_generated_id e b) p t"
    by (simp add: given_generated_id_path)
qed

text \<open>A record that holds its \<^verbatim>\<open>created_at\<close> is, as a contact or a lead, handed back as
  it is stored.\<close>

lemma hydrate_created_at:
  assumes "map_of d ''created_at'' \<noteq> None"
  shows "hydrate e Contact d = d" and "hydrate e Lead d = d"
  using assms
  by (auto simp: hydrate_def filled_in_def contactSchema_def leadSchema_def
      split: option.splits)



lemma verifyToken_next:
  "verifyToken L cfg e req = Inr req' \<Longrightarrow> \<exists>d. req' = req\<lparr>admin := Some d\<rparr>"
  by (auto simp: verifyToken_def split: option.splits)

lemma verifyToken_rejects:
  assumes "extract_token (authorization req) = None \<or>
           (\<exists>t. extract_token (authorization req) = Some t \<and>
                jwt_verify L t (jwt_secret cfg) (now e) = None)"
  shows "\<exists>r. verifyToken L cfg e req = Inl r \<and> status r = 401"
  using assms by (auto simp: verifyToken_def res_error_def)

lemma delete_first_no_match: "filter P xs = [] \<Longrightarrow> delete_first P xs = xs"
  by (induction xs) (auto split: if_splits)

lemma delete_first_twice:
  "length (filter P xs) \<le> 1 \<Longrightarrow> delete_first P (delete_first P xs) = delete_first P xs"
  by (induction xs) (auto simp: delete_first_no_match split: if_splits)

lemma demo_bearer_authorized:
  "verifyToken demo_libs demo_config demo_env (demo_bearer\<lparr>param_id := i, body := b\<rparr>) =
     Inr (demo_bearer\<lparr>param_id := i, body := b, admin := Some demo_admin\<rparr>)"
proof -
  have tok: "string_of_nat 1700086400000 = ''1700086400000''"
    by (simp add: string_of_nat.simps)
  have ev: "nat_of_string ''1700086400000'' = 1700086400000"
    using nat_of_string_of_nat[of 1700086400000] by (simp only: tok)
  show ?thesis
    using ev
    by (simp add: verifyToken_def extract_token_def demo_bearer_def demo_request_def
        demo_libs_def demo_verify_def demo_env_def demo_admin_def is_digit_def)
qed

section \<open>The claims\<close>

text \<open>
  C1. A request to a protected mutating endpoint (POST, PUT or DELETE on properties or
  team) whose authorization header is absent, or gives no token, is answered with 401
  "No token provided"; the handler behind the middleware never runs (the result is the
  same whatever the handler is) and the store is left as it was.
\<close>

theorem missing_token_is_401_and_handler_never_runs:
  assumes "authorization req = None \<or> extract_token (authorization req) = None"
  shows "(\<forall>h. guarded L cfg e h req st = (res_error 401 ''No token provided'', st)) \<and>
         (protected_mutating r \<longrightarrow>
            app L cfg e r req st = (res_error 401 ''No token provided'', st)) \<and>
         status (res_error 401 ''No token provided'') = 401"
proof -
  from assms have none: "extract_token (authorization req) = None"
    by (auto simp: extract_token_def)
  then have g: "guarded L cfg e h req st = (res_error 401 ''No token provided'', st)" for h
    by (simp add: guarded_def verifyToken_def)
  then show ?thesis by (cases r) (simp_all add: res_error_def)
qed

theorem missing_token_is_401_witness:
  "extract_token (authorization (demo_request\<lparr>authorization := Some ''Bearer''\<rparr>)) = None \<and>
   protected_mutating DeleteTeam \<and>
   app demo_libs demo_config demo_env DeleteTeam
       (demo_request\<lparr>authorization := Some ''Bearer''\<rparr>)
       (empty_store\<lparr>teammembers := [[(''id'', JStr ''42'')]]\<rparr>) =
     (\<lparr>status = 401, json = JObj [(''error'', JStr ''No token provided'')]\<rparr>,
      empty_store\<lparr>teammembers := [[(''id'', JStr ''42'')]]\<rparr>)"
  using missing_token_is_401_and_handler_never_runs
    [of "demo_request\<lparr>authorization := Some ''Bearer''\<rparr>" demo_libs demo_config demo_env
        "empty_store\<lparr>teammembers := [[(''id'', JStr ''42'')]]\<rparr>" DeleteTeam]
  by (simp add: demo_request_def extract_token_def res_error_def)

text \<open>
  C2, as the code has it. The login handler compares the email first: a request whose
  email is not the configured one is answered "Invalid email or password" whether or not a
  password hash is configured. Only for the configured email does a missing hash give
  "Admin password not configured"; then a comparison that returns false gives "Invalid
  email or password", one that returns true gives the success response with the token
  signed for \<open>{email, role: "admin"}\<close>, and one that raises gives 500 "Login failed".
\<close>

theorem login_checks_email_before_configuration:
  "(map_of (body req) ''email'' \<noteq> Some (JStr (admin_email cfg)) \<longrightarrow>
      login L cfg e req = res_error 401 ''Invalid email or password'') \<and>
   (map_of (body req) ''email'' = Some (JStr (admin_email cfg)) \<and>
    admin_password_hash cfg = [] \<longrightarrow>
      login L cfg e req =
        res_error 401
          ''Admin password not configured. Please set ADMIN_PASSWORD_HASH in .env'') \<and>
   (map_of (body req) ''email'' = Some (JStr (admin_email cfg)) \<and>
    admin_password_hash cfg \<noteq> [] \<longrightarrow>
      (case bcrypt_compare L (map_of (body req) ''password'') (admin_password_hash cfg) of
         None \<Rightarrow> login L cfg e req = res_error 500 ''Login failed''
       | Some False \<Rightarrow> login L cfg e req = res_error 401 ''Invalid email or password''
       | Some True \<Rightarrow>
           login L cfg e req =
             res_json (JObj
               [(''success'', JBool True),
                (''token'', JStr (jwt_sign L
                   [(''email'', JStr (admin_email cfg)), (''role'', JStr ''admin'')]
                   (jwt_secret cfg) ''24h'' (now e)))])))"
  by (simp add: login_def Let_def split: option.split bool.split)

theorem login_checks_email_before_configuration_witness:
  "login demo_libs demo_config demo_env
     (demo_request\<lparr>body := [(''email'', JStr ''admin@ssprealty.com''),
                              (''password'', JStr ''hunter2'')]\<rparr>) =
     \<lparr>status = 200,
      json = JObj [(''success'', JBool True), (''token'', JStr ''1700086400000'')]\<rparr> \<and>
   login demo_libs demo_config demo_env
     (demo_request\<lparr>body := [(''email'', JStr ''admin@ssprealty.com''),
                              (''password'', JStr ''wrong'')]\<rparr>) =
     \<lparr>status = 401, json = JObj [(''error'', JStr ''Invalid email or password'')]\<rparr> \<and>
   login demo_libs demo_config demo_env
     (demo_request\<lparr>body := [(''email'', JStr ''admin@ssprealty.com'')]\<rparr>) =
     \<lparr>status = 500, json = JObj [(''error'', JStr ''Login failed'')]\<rparr> \<and>
   login demo_libs (load_config Map.empty) demo_env
     (demo_request\<lparr>body := [(''email'', JStr ''admin@ssprealty.com''),
                              (''password'', JStr ''hunter2'')]\<rparr>) =
     \<lparr>status = 401,
      json = JObj [(''error'',
        JStr ''Admin password not configured. Please set ADMIN_PASSWORD_HASH in .env'')]\<rparr>"
  using
    login_checks_email_before_configuration
      [of "demo_request\<lparr>body := [(''email'', JStr ''admin@ssprealty.com''),
                                     (''password'', JStr ''hunter2'')]\<rparr>"
          demo_config demo_libs demo_env]
    login_checks_email_before_configuration
      [of "demo_request\<lparr>body := [(''email'', JStr ''admin@ssprealty.com''),
                                     (''password'', JStr ''wrong'')]\<rparr>"
          demo_config demo_libs demo_env]
    login_checks_email_before_configuration
      [of "demo_request\<lparr>body := [(''email'', JStr ''admin@ssprealty.com'')]\<rparr>"
          demo_config demo_libs demo_env]
    login_checks_email_before_configuration
      [of "demo_request\<lparr>body := [(''email'', JStr ''admin@ssprealty.com''),
                                     (''password'', JStr ''hunter2'')]\<rparr>"
          "load_config Map.empty" demo_libs demo_env]
  by (simp add: demo_config_def load_config_def or_default_def demo_request_def
      demo_libs_def demo_compare_def demo_sign_def demo_env_def day_def
      res_error_def res_json_def string_of_nat.simps)

text \<open>
  C2 as the claim states it fails: with no hash configured (the default configuration) and
  an email that is not the administrator's, the answer is "Invalid email or password", not
  the configuration error.
\<close>

theorem login_unconfigured_wrong_email_counterexample:
  "admin_password_hash (load_config Map.empty) = [] \<and>
   login demo_libs (load_config Map.empty) demo_env
     (demo_request\<lparr>body := [(''email'', JStr ''eve@example.com''),
                              (''password'', JStr ''hunter2'')]\<rparr>) =
     \<lparr>status = 401, json = JObj [(''error'', JStr ''Invalid email or password'')]\<rparr> \<and>
   login demo_libs (load_config Map.empty) demo_env
     (demo_request\<lparr>body := [(''email'', JStr ''eve@example.com''),
                              (''password'', JStr ''hunter2'')]\<rparr>) \<noteq>
     res_error 401 ''Admin password not configured. Please set ADMIN_PASSWORD_HASH in .env''"
  by (simp add: login_def load_config_def or_default_def demo_request_def res_error_def)

text \<open>
  C6. For valid administrator credentials, login answers with a token signed for
  \<open>{email, role: "admin"}\<close>; sent as \<^verbatim>\<open>Bearer <token>\<close>, the token passes the middleware,
  which attaches those claims to the request, at every instant from issuance up to 24
  hours later, and is answered 401 "Invalid token" at every later instant. The token
  service is the one the spec describes (\<open>token_service\<close>); the middleware consults
  nothing but the header, the secret and the clock, the store is not among its arguments.
\<close>

theorem login_token_accepted_for_24_hours:
  assumes svc: "token_service L
                  [(''email'', JStr (admin_email cfg)), (''role'', JStr ''admin'')]
                  (jwt_secret cfg)"
    and email: "map_of (body req) ''email'' = Some (JStr (admin_email cfg))"
    and hash: "admin_password_hash cfg \<noteq> []"
    and pw: "bcrypt_compare L (map_of (body req) ''password'') (admin_password_hash cfg)
               = Some True"
  shows "\<exists>token.
           login L cfg e req =
             res_json (JObj [(''success'', JBool True), (''token'', JStr token)]) \<and>
           (\<forall>e' r. authorization r = Some (''Bearer '' @ token) \<and>
                   now e \<le> now e' \<and> now e' \<le> now e + day \<longrightarrow>
              (\<exists>d. verifyToken L cfg e' r = Inr (r\<lparr>admin := Some d\<rparr>) \<and>
                   map_of d ''email'' = Some (JStr (admin_email cfg)) \<and>
                   map_of d ''role'' = Some (JStr ''admin''))) \<and>
           (\<forall>e' r. authorization r = Some (''Bearer '' @ token) \<and> now e + day < now e' \<longrightarrow>
              verifyToken L cfg e' r = Inl (res_error 401 ''Invalid token''))"
proof -
  let ?p = "[(''email'', JStr (admin_email cfg)), (''role'', JStr ''admin'')]"
  let ?tok = "jwt_sign L ?p (jwt_secret cfg) ''24h'' (now e)"
  have login: "login L cfg e req =
      res_json (JObj [(''success'', JBool True), (''token'', JStr ?tok)])"
    using email hash pw by (simp add: login_def)
  from svc have ne: "?tok \<noteq> []" and sp: "CHR '' '' \<notin> set ?tok"
    and ok: "\<And>t. now e \<le> t \<Longrightarrow> t \<le> now e + day \<Longrightarrow>
               \<exists>d. jwt_verify L ?tok (jwt_secret cfg) t = Some d \<and>
                   map_of d ''email'' = map_of ?p ''email'' \<and>
                   map_of d ''role'' = map_of ?p ''role''"
    and late: "\<And>t. now e + day < t \<Longrightarrow> jwt_verify L ?tok (jwt_secret cfg) t = None"
    unfolding token_service_def by blast+
  have ex: "extract_token (Some (''Bearer '' @ ?tok)) = Some ?tok"
    using extract_bearer[OF ne sp] .
  have accepted: "\<exists>d. verifyToken L cfg e' r = Inr (r\<lparr>admin := Some d\<rparr>) \<and>
                   map_of d ''email'' = Some (JStr (admin_email cfg)) \<and>
                   map_of d ''role'' = Some (JStr ''admin'')"
    if "authorization r = Some (''Bearer '' @ ?tok)" "now e \<le> now e'" "now e' \<le> now e + day"
    for e' r
  proof -
    from ok[OF that(2,3)] obtain d where
      "jwt_verify L ?tok (jwt_secret cfg) (now e') = Some d"
      "map_of d ''email'' = map_of ?p ''email''" "map_of d ''role'' = map_of ?p ''role''"
      by blast
    then show ?thesis using that(1) ex
      by (intro exI[of _ d]) (simp add: verifyToken_def)
  qed
  have rejected: "verifyToken L cfg e' r = Inl (res_error 401 ''Invalid token'')"
    if "authorization r = Some (''Bearer '' @ ?tok)" "now e + day < now e'" for e' r
    using late[OF that(2)] that(1) ex by (simp add: verifyToken_def)
  from login accepted rejected show ?thesis by blast
qed

theorem login_token_accepted_for_24_hours_witness:
  "token_service demo_libs
     [(''email'', JStr (admin_email demo_config)), (''role'', JStr ''admin'')]
     (jwt_secret demo_config) \<and>
   login demo_libs demo_config demo_env
     (demo_request\<lparr>body := [(''email'', JStr ''admin@ssprealty.com''),
                              (''password'', JStr ''hunter2'')]\<rparr>) =
     res_json (JObj [(''success'', JBool True), (''token'', JStr ''1700086400000'')]) \<and>
   (\<exists>d. verifyToken demo_libs demo_config (demo_env\<lparr>now := 1700086400000\<rparr>)
          (demo_request\<lparr>authorization := Some ''Bearer 1700086400000''\<rparr>) =
          Inr (demo_request\<lparr>authorization := Some ''Bearer 1700086400000'',
                 admin := Some d\<rparr>) \<and>
        map_of d ''email'' = Some (JStr ''admin@ssprealty.com'') \<and>
        map_of d ''role'' = Some (JStr ''admin'')) \<and>
   verifyToken demo_libs demo_config (demo_env\<lparr>now := 1700086400001\<rparr>)
     (demo_request\<lparr>authorization := Some ''Bearer 1700086400000''\<rparr>) =
     Inl (res_error 401 ''Invalid token'')"
proof -
  let ?req = "demo_request\<lparr>body := [(''email'', JStr ''admin@ssprealty.com''),
                                    (''password'', JStr ''hunter2'')]\<rparr>"
  let ?r = "demo_request\<lparr>authorization := Some ''Bearer 1700086400000''\<rparr>"
  have cfg: "admin_email demo_config = ''admin@ssprealty.com''"
    "admin_password_hash demo_config = ''hash of hunter2''"
    by (simp_all add: demo_config_def load_config_def or_default_def)
  have svc: "token_service demo_libs
     [(''email'', JStr (admin_email demo_config)), (''role'', JStr ''admin'')]
     (jwt_secret demo_config)"
    using demo_token_service by (simp add: cfg)
  have email: "map_of (body ?req) ''email'' = Some (JStr (admin_email demo_config))"
    by (simp add: cfg)
  have hash: "admin_password_hash demo_config \<noteq> []"
    by (simp add: cfg)
  have pw: "bcrypt_compare demo_libs (map_of (body ?req) ''password'')
              (admin_password_hash demo_config) = Some True"
    by (simp add: cfg demo_libs_def demo_compare_def)
  have tok: "string_of_nat 1700086400000 = ''1700086400000''"
    by (simp add: string_of_nat.simps)
  have login: "login demo_libs demo_config demo_env ?req =
       res_json (JObj [(''success'', JBool True), (''token'', JStr ''1700086400000'')])"
    by (simp add: login_def cfg demo_request_def demo_libs_def demo_compare_def
        demo_sign_def demo_env_def day_def tok res_json_def)
  from login_token_accepted_for_24_hours[OF svc email hash pw, of demo_env]
  obtain token where
    t: "login demo_libs demo_config demo_env ?req =
          res_json (JObj [(''success'', JBool True), (''token'', JStr token)])"
    and acc: "\<And>e' r. authorization r = Some (''Bearer '' @ token) \<Longrightarrow>
                now demo_env \<le> now e' \<Longrightarrow> now e' \<le> now demo_env + day \<Longrightarrow>
                \<exists>d. verifyToken demo_libs demo_config e' r = Inr (r\<lparr>admin := Some d\<rparr>) \<and>
                    map_of d ''email'' = Some (JStr (admin_email demo_config)) \<and>
                    map_of d ''role'' = Some (JStr ''admin'')"
    and rej: "\<And>e' r. authorization r = Some (''Bearer '' @ token) \<Longrightarrow>
                now demo_env + day < now e' \<Longrightarrow>
                verifyToken demo_libs demo_config e' r = Inl (res_error 401 ''Invalid token'')"
    by blast
  from t login have token: "token = ''1700086400000''"
    by (simp add: res_json_def)
  have hdr: "authorization ?r = Some (''Bearer '' @ token)"
    by (simp add: token)
  have "\<exists>d. verifyToken demo_libs demo_config (demo_env\<lparr>now := 1700086400000\<rparr>) ?r =
            Inr (?r\<lparr>admin := Some d\<rparr>) \<and>
          map_of d ''email'' = Some (JStr (admin_email demo_config)) \<and>
          map_of d ''role'' = Some (JStr ''admin'')"
    by (rule acc[OF hdr]) (simp_all add: demo_env_def day_def)
  moreover have "verifyToken demo_libs demo_config (demo_env\<lparr>now := 1700086400001\<rparr>) ?r =
      Inl (res_error 401 ''Invalid token'')"
    by (rule rej[OF hdr]) (simp add: demo_env_def day_def)
  ultimately show ?thesis
    using svc login by (simp add: cfg)
qed

text \<open>
  C3, as the code has it. The middleware never looks at the scheme word. It answers
  "No token provided" when the header is absent, when the header holds no space, and when
  the piece after the first space is empty. For a header \<^verbatim>\<open><word> <rest>\<close>, whatever the
  word is (\<^verbatim>\<open>Bearer\<close>, \<^verbatim>\<open>Basic\<close>, anything without a space), the piece of the rest up to
  the next space is verified as the token: the answer is "Invalid token" when
  verification fails, and the request goes on to the handler when it succeeds.
\<close>

theorem gate_reads_second_piece_whatever_the_scheme:
  "(authorization req = None \<longrightarrow>
      verifyToken L cfg e req = Inl (res_error 401 ''No token provided'')) \<and>
   (\<forall>s. authorization req = Some s \<and> CHR '' '' \<notin> set s \<longrightarrow>
      verifyToken L cfg e req = Inl (res_error 401 ''No token provided'')) \<and>
   (\<forall>scheme rest.
      authorization req = Some (scheme @ '' '' @ rest) \<and> CHR '' '' \<notin> set scheme \<longrightarrow>
      verifyToken L cfg e req =
        (if takeWhile (\<lambda>x. x \<noteq> CHR '' '') rest = [] then
           Inl (res_error 401 ''No token provided'')
         else
           (case jwt_verify L (takeWhile (\<lambda>x. x \<noteq> CHR '' '') rest) (jwt_secret cfg) (now e) of
              Some decoded \<Rightarrow> Inr (req\<lparr>admin := Some decoded\<rparr>)
            | None \<Rightarrow> Inl (res_error 401 ''Invalid token''))))"
proof (intro conjI allI impI)
  assume "authorization req = None"
  then show "verifyToken L cfg e req = Inl (res_error 401 ''No token provided'')"
    by (simp add: verifyToken_def extract_token_def)
next
  fix s assume "authorization req = Some s \<and> CHR '' '' \<notin> set s"
  then show "verifyToken L cfg e req = Inl (res_error 401 ''No token provided'')"
    by (simp add: verifyToken_def extract_token_def split_on_none)
next
  fix scheme rest
  assume a: "authorization req = Some (scheme @ '' '' @ rest) \<and> CHR '' '' \<notin> set scheme"
  then have "extract_token (authorization req) =
      (if takeWhile (\<lambda>x. x \<noteq> CHR '' '') rest = [] then None
       else Some (takeWhile (\<lambda>x. x \<noteq> CHR '' '') rest))"
    using extract_token_scheme[of scheme rest] by simp
  then show "verifyToken L cfg e req =
        (if takeWhile (\<lambda>x. x \<noteq> CHR '' '') rest = [] then
           Inl (res_error 401 ''No token provided'')
         else
           (case jwt_verify L (takeWhile (\<lambda>x. x \<noteq> CHR '' '') rest) (jwt_secret cfg) (now e) of
              Some decoded \<Rightarrow> Inr (req\<lparr>admin := Some decoded\<rparr>)
            | None \<Rightarrow> Inl (res_error 401 ''Invalid token'')))"
    by (simp add: verifyToken_def)
qed

theorem gate_reads_second_piece_witness:
  "verifyToken demo_libs demo_config demo_env (demo_request\<lparr>authorization := None\<rparr>) =
     Inl (res_error 401 ''No token provided'') \<and>
   verifyToken demo_libs demo_config demo_env
     (demo_request\<lparr>authorization := Some ''Bearer''\<rparr>) =
     Inl (res_error 401 ''No token provided'') \<and>
   verifyToken demo_libs demo_config demo_env
     (demo_request\<lparr>authorization := Some ''Token 1700086400000''\<rparr>) =
     Inr (demo_request\<lparr>authorization := Some ''Token 1700086400000'',
            admin := Some [(''email'', JStr ''admin@ssprealty.com''),
                           (''role'', JStr ''admin'')]\<rparr>)"
proof -
  have tok: "string_of_nat 1700086400000 = ''1700086400000''"
    by (simp add: string_of_nat.simps)
  have ev: "nat_of_string ''1700086400000'' = 1700086400000"
    using nat_of_string_of_nat[of 1700086400000] by (simp only: tok)
  have dg: "list_all is_digit ''1700086400000''"
    using digits_string_of_nat[of 1700086400000] by (simp only: tok)
  show ?thesis
    using
      gate_reads_second_piece_whatever_the_scheme
        [of "demo_request\<lparr>authorization := None\<rparr>" demo_libs demo_config demo_env]
      gate_reads_second_piece_whatever_the_scheme
        [of "demo_request\<lparr>authorization := Some ''Bearer''\<rparr>" demo_libs demo_config demo_env,
         THEN conjunct2, THEN conjunct1, rule_format, of "''Bearer''"]
      gate_reads_second_piece_whatever_the_scheme
        [of "demo_request\<lparr>authorization := Some ''Token 1700086400000''\<rparr>"
            demo_libs demo_config demo_env,
         THEN conjunct2, THEN conjunct2, rule_format, of "''Token''" "''1700086400000''"]
      ev dg
    by (simp add: demo_request_def demo_libs_def demo_verify_def demo_env_def)
qed

text \<open>
  C3 as the claim states it fails: the header \<^verbatim>\<open>Basic abc\<close> is answered "Invalid token",
  not "No token provided", and a header \<^verbatim>\<open>Basic <token>\<close> with a token that verifies
  passes the middleware.
\<close>

theorem basic_scheme_is_not_no_token_counterexample:
  "verifyToken demo_libs demo_config demo_env
     (demo_request\<lparr>authorization := Some ''Basic abc''\<rparr>) =
     Inl \<lparr>status = 401, json = JObj [(''error'', JStr ''Invalid token'')]\<rparr> \<and>
   verifyToken demo_libs demo_config demo_env
     (demo_request\<lparr>authorization := Some ''Basic abc''\<rparr>) \<noteq>
     Inl (res_error 401 ''No token provided'') \<and>
   (\<exists>d. verifyToken demo_libs demo_config demo_env
          (demo_request\<lparr>authorization := Some ''Basic 1700086400000''\<rparr>) =
        Inr (demo_request\<lparr>authorization := Some ''Basic 1700086400000'', admin := Some d\<rparr>))"
proof -
  have tok: "string_of_nat 1700086400000 = ''1700086400000''"
    by (simp add: string_of_nat.simps)
  have ev: "nat_of_string ''1700086400000'' = 1700086400000"
    using nat_of_string_of_nat[of 1700086400000] by (simp only: tok)
  show ?thesis
    using ev
    by (simp add: verifyToken_def extract_token_def demo_request_def demo_libs_def
        demo_verify_def demo_env_def res_error_def is_digit_def)
qed

text \<open>
  C4, as the code has it. The schemas are strict: on every create, a field of the body
  that is not a path of the collection's schema (not a declared field, not mongoose's own
  \<^verbatim>\<open>_id\<close> or \<^verbatim>\<open>__v\<close>, and not a dotted name that leads into a nested value or an array
  that the schema declares) is tolerated, in that the request is answered exactly as it
  would be without the field, but it is not persisted: the document that is built, stored
  and returned has no such field.
\<close>

theorem unknown_fields_are_tolerated_and_dropped:
  assumes unknown: "\<not> is_path m k"
  shows "new_Model L e m (AList.update k v (body req)) = new_Model L e m (body req) \<and>
         (\<forall>d. new_Model L e m (AList.update k v (body req)) = Some d \<longrightarrow> map_of d k = None) \<and>
         (m = Property \<longrightarrow>
            post_properties L e (req\<lparr>body := AList.update k v (body req)\<rparr>) st =
            post_properties L e req st) \<and>
         (m = TeamMember \<longrightarrow>
            post_team L e (req\<lparr>body := AList.update k v (body req)\<rparr>) st =
            post_team L e req st) \<and>
         (m = Contact \<longrightarrow>
            post_contact L e (req\<lparr>body := AList.update k v (body req)\<rparr>) st =
            post_contact L e req st) \<and>
         (m = Lead \<longrightarrow>
            post_leads L e (req\<lparr>body := AList.update k v (body req)\<rparr>) st =
            post_leads L e req st)"
  using new_Model_unknown_key[OF unknown] new_Model_no_unknown_key[OF unknown]
  by (auto simp add: post_properties_def post_team_def post_contact_def post_leads_def)

theorem unknown_fields_witness:
  "\<not> is_path Contact ''company'' \<and>
   \<not> is_path Contact ''name.first'' \<and>
   is_path Property ''constructionDetails.brickType'' \<and>
   post_contact demo_libs demo_env
     (demo_request\<lparr>body := AList.update ''company'' (JStr ''Acme'')
        [(''name'', JStr ''Bob''), (''email'', JStr ''b@x.com''), (''message'', JStr ''Hi'')]\<rparr>)
     empty_store =
   post_contact demo_libs demo_env
     (demo_request\<lparr>body :=
        [(''name'', JStr ''Bob''), (''email'', JStr ''b@x.com''), (''message'', JStr ''Hi'')]\<rparr>)
     empty_store"
proof -
  have p: "\<not> is_path Contact ''company''"
    by (simp add: is_path_def paths_def contactSchema_def)
  from unknown_fields_are_tolerated_and_dropped
    [OF p, of demo_libs demo_env "JStr ''Acme''"
       "demo_request\<lparr>body :=
          [(''name'', JStr ''Bob''), (''email'', JStr ''b@x.com''), (''message'', JStr ''Hi'')]\<rparr>"
       empty_store]
  show ?thesis
    using p
    by (simp add: is_path_def paths_def contactSchema_def propertySchema_def
        leads_into_def)
qed

text \<open>
  C4 as the claim states it fails: a contact submitted with the extra field
  \<^verbatim>\<open>company: "Acme"\<close> is stored and returned without it.
\<close>

theorem unknown_field_not_persisted_counterexample:
  "app demo_libs demo_config demo_env PostContact
     (demo_request\<lparr>body :=
        [(''name'', JStr ''Bob''), (''email'', JStr ''b@x.com''), (''message'', JStr ''Hi''),
         (''company'', JStr ''Acme'')]\<rparr>)
     empty_store =
     (res_data
        [(''_id'', JOid ''65f0c0ffee''), (''id'', JStr ''1700000000000''),
         (''name'', JStr ''Bob''), (''email'', JStr ''b@x.com''), (''message'', JStr ''Hi''),
         (''created_at'', JDate 1700000000001), (''__v'', JNum 0)],
      empty_store\<lparr>contacts :=
        [[(''_id'', JOid ''65f0c0ffee''), (''id'', JStr ''1700000000000''),
          (''name'', JStr ''Bob''), (''email'', JStr ''b@x.com''), (''message'', JStr ''Hi''),
          (''created_at'', JDate 1700000000001), (''__v'', JNum 0)]]\<rparr>) \<and>
   map_of
     [(''_id'', JOid ''65f0c0ffee''), (''id'', JStr ''1700000000000''),
      (''name'', JStr ''Bob''), (''email'', JStr ''b@x.com''), (''message'', JStr ''Hi''),
      (''created_at'', JDate 1700000000001), (''__v'', JNum 0)] ''company''
     \<noteq> Some (JStr ''Acme'')"
  by (simp add: post_contact_def save_def new_Model_def paths_def contactSchema_def
      given_def with_generated_id_def demo_request_def demo_env_def demo_libs_def
      empty_store_def string_of_nat.simps)

text \<open>
  C8. A \<^verbatim>\<open>POST /api/contact\<close> with a well-formed body (strings under \<^verbatim>\<open>name\<close>,
  \<^verbatim>\<open>email\<close> and \<^verbatim>\<open>message\<close>; nothing under \<^verbatim>\<open>created_at\<close>, \<^verbatim>\<open>_id\<close> and \<^verbatim>\<open>__v\<close>), whatever
  its authorization header, is answered with the success response whose data is the stored
  record: the submitted fields, the \<^verbatim>\<open>id\<close> generated from the clock (a non-empty string)
  and the creation timestamp. Provided the store answers, a following
  \<^verbatim>\<open>GET /api/contact\<close> lists that record first when every other contact is older.
\<close>

theorem public_contact_submission:
  assumes form: "contact_form (body req) name email message" and up: "db_up e"
  shows "\<exists>d st'.
           d = [(''_id'', JOid (new_oid e)), (''id'', JStr (string_of_nat (now e))),
                (''name'', JStr name), (''email'', JStr email), (''message'', JStr message),
                (''created_at'', JDate (default_now e)), (''__v'', JNum 0)] \<and>
           st' = st\<lparr>contacts := contacts st @ [d]\<rparr> \<and>
           app L cfg e PostContact req st = (res_data d, st') \<and>
           string_of_nat (now e) \<noteq> [] \<and>
           (\<forall>e' req'. db_up e' \<and> (\<forall>c \<in> set (contacts st). created_key c < created_key d) \<longrightarrow>
              (\<exists>rest. app L cfg e' GetContact req' st' = (res_json (docs_json (d # rest)), st')))"
proof -
  let ?d = "[(''_id'', JOid (new_oid e)), (''id'', JStr (string_of_nat (now e))),
             (''name'', JStr name), (''email'', JStr email), (''message'', JStr message),
             (''created_at'', JDate (default_now e)), (''__v'', JNum 0)]"
  let ?st = "st\<lparr>contacts := contacts st @ [?d]\<rparr>"
  have new: "new_Model L e Contact (with_generated_id e (body req)) = Some ?d"
    using form
    by (simp add: contact_form_def new_Model_def paths_def contactSchema_def
        given_def map_of_with_generated_id)
  have post: "app L cfg e PostContact req st = (res_data ?d, ?st)"
    using up by (simp add: post_contact_def save_def new)
  have first: "\<exists>rest. app L cfg e' GetContact req' ?st = (res_json (docs_json (?d # rest)), ?st)"
    if "db_up e'" "\<forall>c \<in> set (contacts st). created_key c < created_key ?d" for e' req'
  proof -
    have "\<exists>rest. sort_newest_first (contacts st @ [?d]) = ?d # rest"
      by (rule newest_is_first) (use that(2) in auto)
    moreover have "hydrate e' Contact ?d = ?d"
      by (rule hydrate_created_at) simp
    ultimately show ?thesis
      using that(1) by (auto simp: get_contact_def find_sorted_def)
  qed
  from post first string_of_nat_not_Nil[of "now e"] show ?thesis by blast
qed

theorem public_contact_submission_witness:
  "contact_form
     [(''name'', JStr ''Bob''), (''email'', JStr ''b@x.com''), (''message'', JStr ''Hi'')]
     ''Bob'' ''b@x.com'' ''Hi'' \<and>
   db_up demo_env \<and>
   app demo_libs demo_config demo_env PostContact
     (demo_request\<lparr>body :=
        [(''name'', JStr ''Bob''), (''email'', JStr ''b@x.com''), (''message'', JStr ''Hi'')]\<rparr>)
     (empty_store\<lparr>contacts :=
        [[(''id'', JStr ''1600000000000''), (''name'', JStr ''Al''),
          (''created_at'', JDate 1600000000000)]]\<rparr>) =
     (res_data
        [(''_id'', JOid ''65f0c0ffee''), (''id'', JStr ''1700000000000''),
         (''name'', JStr ''Bob''), (''email'', JStr ''b@x.com''), (''message'', JStr ''Hi''),
         (''created_at'', JDate 1700000000001), (''__v'', JNum 0)],
      empty_store\<lparr>contacts :=
        [[(''id'', JStr ''1600000000000''), (''name'', JStr ''Al''),
          (''created_at'', JDate 1600000000000)],
         [(''_id'', JOid ''65f0c0ffee''), (''id'', JStr ''1700000000000''),
          (''name'', JStr ''Bob''), (''email'', JStr ''b@x.com''), (''message'', JStr ''Hi''),
          (''created_at'', JDate 1700000000001), (''__v'', JNum 0)]]\<rparr>) \<and>
   (\<exists>rest.
      app demo_libs demo_config demo_env GetContact demo_request
        (empty_store\<lparr>contacts :=
           [[(''id'', JStr ''1600000000000''), (''name'', JStr ''Al''),
             (''created_at'', JDate 1600000000000)],
            [(''_id'', JOid ''65f0c0ffee''), (''id'', JStr ''1700000000000''),
             (''name'', JStr ''Bob''), (''email'', JStr ''b@x.com''), (''message'', JStr ''Hi''),
             (''created_at'', JDate 1700000000001), (''__v'', JNum 0)]]\<rparr>) =
        (res_json (docs_json
           ([(''_id'', JOid ''65f0c0ffee''), (''id'', JStr ''1700000000000''),
             (''name'', JStr ''Bob''), (''email'', JStr ''b@x.com''), (''message'', JStr ''Hi''),
             (''created_at'', JDate 1700000000001), (''__v'', JNum 0)] # rest)),
         empty_store\<lparr>contacts :=
           [[(''id'', JStr ''1600000000000''), (''name'', JStr ''Al''),
             (''created_at'', JDate 1600000000000)],
            [(''_id'', JOid ''65f0c0ffee''), (''id'', JStr ''1700000000000''),
             (''name'', JStr ''Bob''), (''email'', JStr ''b@x.com''), (''message'', JStr ''Hi''),
             (''created_at'', JDate 1700000000001), (''__v'', JNum 0)]]\<rparr>))"
proof -
  let ?req = "demo_request\<lparr>body :=
        [(''name'', JStr ''Bob''), (''email'', JStr ''b@x.com''), (''message'', JStr ''Hi'')]\<rparr>"
  let ?old = "empty_store\<lparr>contacts :=
        [[(''id'', JStr ''1600000000000''), (''name'', JStr ''Al''),
          (''created_at'', JDate 1600000000000)]]\<rparr>"
  have form: "contact_form (body ?req) ''Bob'' ''b@x.com'' ''Hi''"
    by (simp add: contact_form_def)
  have up: "db_up demo_env"
    by (simp add: demo_env_def)
  have tok: "string_of_nat 1700000000000 = ''1700000000000''"
    by (simp add: string_of_nat.simps)
  from public_contact_submission[OF form up, of ?old demo_libs demo_config]
  obtain d st' where
    d: "d = [(''_id'', JOid (new_oid demo_env)), (''id'', JStr (string_of_nat (now demo_env))),
             (''name'', JStr ''Bob''), (''email'', JStr ''b@x.com''), (''message'', JStr ''Hi''),
             (''created_at'', JDate (default_now demo_env)), (''__v'', JNum 0)]"
    and st': "st' = ?old\<lparr>contacts := contacts ?old @ [d]\<rparr>"
    and post: "app demo_libs demo_config demo_env PostContact ?req ?old = (res_data d, st')"
    and first: "\<And>e' req'. db_up e' \<Longrightarrow>
                  \<forall>c \<in> set (contacts ?old). created_key c < created_key d \<Longrightarrow>
                  \<exists>rest. app demo_libs demo_config e' GetContact req' st' =
                          (res_json (docs_json (d # rest)), st')"
    by blast
  have older: "\<forall>c \<in> set (contacts ?old). created_key c < created_key d"
    by (simp add: d created_key_def demo_env_def)
  from first[OF up older, of demo_request] post form up show ?thesis
    by (simp add: d st' demo_env_def tok empty_store_def)
qed

text \<open>
  C10. On \<^verbatim>\<open>POST /api/contact\<close> and \<^verbatim>\<open>POST /api/leads\<close> an \<^verbatim>\<open>id\<close> in the body is ignored.
  The handler either fails (500, nothing stored) or stores and returns one new record, and
  the \<^verbatim>\<open>id\<close> of that record is the decimal string of the clock; the whole result is the
  same whatever \<^verbatim>\<open>id\<close> the caller puts in the body.
\<close>

theorem generated_id_replaces_the_callers:
  "(post_contact L e req st = (res_error 500 ''Failed to submit contact form'', st) \<or>
    (\<exists>d. post_contact L e req st = (res_data d, st\<lparr>contacts := contacts st @ [d]\<rparr>) \<and>
         map_of d ''id'' = Some (JStr (string_of_nat (now e))))) \<and>
   post_contact L e (req\<lparr>body := AList.update ''id'' x (body req)\<rparr>) st =
     post_contact L e req st \<and>
   (post_leads L e req st = (res_error 500 ''Failed to submit lead form'', st) \<or>
    (\<exists>d. post_leads L e req st = (res_data d, st\<lparr>leads := leads st @ [d]\<rparr>) \<and>
         map_of d ''id'' = Some (JStr (string_of_nat (now e))))) \<and>
   post_leads L e (req\<lparr>body := AList.update ''id'' x (body req)\<rparr>) st =
     post_leads L e req st"
proof -
  have c: "post_contact L e req st = (res_error 500 ''Failed to submit contact form'', st) \<or>
    (\<exists>d. post_contact L e req st = (res_data d, st\<lparr>contacts := contacts st @ [d]\<rparr>) \<and>
         map_of d ''id'' = Some (JStr (string_of_nat (now e))))"
    using new_Model_generated_id[of L e Contact "body req"]
    by (cases "new_Model L e Contact (with_generated_id e (body req))")
       (auto simp: post_contact_def save_def)
  have l: "post_leads L e req st = (res_error 500 ''Failed to submit lead form'', st) \<or>
    (\<exists>d. post_leads L e req st = (res_data d, st\<lparr>leads := leads st @ [d]\<rparr>) \<and>
         map_of d ''id'' = Some (JStr (string_of_nat (now e))))"
    using new_Model_generated_id[of L e Lead "body req"]
    by (cases "new_Model L e Lead (with_generated_id e (body req))")
       (auto simp: post_leads_def save_def)
  from c l show ?thesis
    by (simp add: post_contact_def post_leads_def new_Model_ignores_given_id)
qed

theorem generated_id_replaces_the_callers_witness:
  "post_contact demo_libs demo_env
     (demo_request\<lparr>body := [(''id'', JStr ''mine''), (''name'', JStr ''Bob'')]\<rparr>) empty_store =
     (res_data
        [(''_id'', JOid ''65f0c0ffee''), (''id'', JStr ''1700000000000''),
         (''name'', JStr ''Bob''), (''created_at'', JDate 1700000000001), (''__v'', JNum 0)],
      empty_store\<lparr>contacts :=
        [[(''_id'', JOid ''65f0c0ffee''), (''id'', JStr ''1700000000000''),
          (''name'', JStr ''Bob''), (''created_at'', JDate 1700000000001),
          (''__v'', JNum 0)]]\<rparr>)"
  using generated_id_replaces_the_callers
    [of demo_libs demo_env
        "demo_request\<lparr>body := [(''id'', JStr ''mine''), (''name'', JStr ''Bob'')]\<rparr>"
        empty_store "JStr ''mine''"]
  by (simp add: post_contact_def save_def new_Model_def paths_def contactSchema_def
      given_def with_generated_id_def demo_request_def demo_env_def demo_libs_def
      empty_store_def string_of_nat.simps)



text \<open>
  C7. \<^verbatim>\<open>GET /api/leads\<close> is a protected read. A request whose header gives no token, or
  a token that does not verify, is answered 401 by the middleware, the handler never runs
  (the result is the same whatever the handler is) and the store is untouched. An
  authorized request, when the store answers, gets all the leads (the same records with
  the same multiplicities) ordered newest first by \<^verbatim>\<open>created_at\<close>, each as its mongoose
  document; where every lead holds its \<^verbatim>\<open>created_at\<close>, as every lead that the server
  stored does, that is the list of the records themselves. The lists of the other three
  collections are public: they are answered for every request, whatever its header.
\<close>

theorem leads_list_is_protected_and_newest_first:
  "(extract_token (authorization req) = None \<or>
    (\<exists>t. extract_token (authorization req) = Some t \<and>
         jwt_verify L t (jwt_secret cfg) (now e) = None) \<longrightarrow>
      (\<exists>r. status r = 401 \<and>
           (\<forall>h. guarded L cfg e h req st = (r, st)) \<and>
           app L cfg e GetLeads req st = (r, st))) \<and>
   (\<forall>req'. verifyToken L cfg e req = Inr req' \<and> db_up e \<longrightarrow>
      (\<exists>ds. app L cfg e GetLeads req st =
              (res_json (docs_json (map (hydrate e Lead) ds)), st) \<and>
            mset ds = mset (leads st) \<and>
            sorted_wrt (\<lambda>a b. created_key b \<le> created_key a) ds \<and>
            ((\<forall>d \<in> set (leads st). map_of d ''created_at'' \<noteq> None) \<longrightarrow>
               app L cfg e GetLeads req st = (res_json (docs_json ds), st)))) \<and>
   (db_up e \<longrightarrow>
      app L cfg e GetProperties req st =
        (res_json (docs_json (map (hydrate e Property) (properties st))), st) \<and>
      app L cfg e GetTeam req st =
        (res_json (docs_json (map (hydrate e TeamMember) (teammembers st))), st) \<and>
      app L cfg e GetContact req st =
        (res_json (docs_json (map (hydrate e Contact) (sort_newest_first (contacts st)))),
         st))"
proof -
  have rejected: "\<exists>r. status r = 401 \<and>
           (\<forall>h. guarded L cfg e h req st = (r, st)) \<and>
           app L cfg e GetLeads req st = (r, st)"
    if "extract_token (authorization req) = None \<or>
        (\<exists>t. extract_token (authorization req) = Some t \<and>
             jwt_verify L t (jwt_secret cfg) (now e) = None)"
  proof -
    from verifyToken_rejects[OF that] obtain r where
      r: "verifyToken L cfg e req = Inl r" "status r = 401" by blast
    then have "\<forall>h. guarded L cfg e h req st = (r, st)"
      by (simp add: guarded_def)
    with r(2) show ?thesis by auto
  qed
  have listed: "\<exists>ds. app L cfg e GetLeads req st =
              (res_json (docs_json (map (hydrate e Lead) ds)), st) \<and>
            mset ds = mset (leads st) \<and>
            sorted_wrt (\<lambda>a b. created_key b \<le> created_key a) ds \<and>
            ((\<forall>d \<in> set (leads st). map_of d ''created_at'' \<noteq> None) \<longrightarrow>
               app L cfg e GetLeads req st = (res_json (docs_json ds), st))"
    if "verifyToken L cfg e req = Inr req' \<and> db_up e" for req'
  proof -
    let ?ds = "sort_newest_first (leads st)"
    have answer: "app L cfg e GetLeads req st =
        (res_json (docs_json (map (hydrate e Lead) ?ds)), st)"
      using that by (simp add: guarded_def get_leads_def find_sorted_def)
    have same: "set ?ds = set (leads st)"
      using mset_newest_first[of "leads st"] by (metis set_mset_mset)
    have "map (hydrate e Lead) ?ds = ?ds"
      if "\<forall>d \<in> set (leads st). map_of d ''created_at'' \<noteq> None"
    proof (rule map_idI)
      fix d assume "d \<in> set ?ds"
      with same that have "map_of d ''created_at'' \<noteq> None" by blast
      then show "hydrate e Lead d = d" by (rule hydrate_created_at(2))
    qed
    with answer have "(\<forall>d \<in> set (leads st). map_of d ''created_at'' \<noteq> None) \<longrightarrow>
        app L cfg e GetLeads req st = (res_json (docs_json ?ds), st)"
      by simp
    with answer mset_newest_first[of "leads st"] sorted_newest_first[of "leads st"]
    show ?thesis by blast
  qed
  have public: "app L cfg e GetProperties req st =
        (res_json (docs_json (map (hydrate e Property) (properties st))), st) \<and>
      app L cfg e GetTeam req st =
        (res_json (docs_json (map (hydrate e TeamMember) (teammembers st))), st) \<and>
      app L cfg e GetContact req st =
        (res_json (docs_json (map (hydrate e Contact) (sort_newest_first (contacts st)))),
         st)"
    if "db_up e"
    using that
    by (simp add: get_properties_def get_team_def get_contact_def find_all_def
        find_sorted_def)
  from rejected listed public show ?thesis by blast
qed

theorem leads_list_witness:
  "app demo_libs demo_config demo_env GetLeads demo_request
     (empty_store\<lparr>leads :=
        [[(''id'', JStr ''1''), (''created_at'', JDate 1600000000000)],
         [(''id'', JStr ''2''), (''created_at'', JDate 1650000000000)]]\<rparr>) =
     (\<lparr>status = 401, json = JObj [(''error'', JStr ''No token provided'')]\<rparr>,
      empty_store\<lparr>leads :=
        [[(''id'', JStr ''1''), (''created_at'', JDate 1600000000000)],
         [(''id'', JStr ''2''), (''created_at'', JDate 1650000000000)]]\<rparr>) \<and>
   app demo_libs demo_config demo_env GetLeads
     (demo_request\<lparr>authorization := Some ''Bearer abc''\<rparr>)
     (empty_store\<lparr>leads :=
        [[(''id'', JStr ''1''), (''created_at'', JDate 1600000000000)],
         [(''id'', JStr ''2''), (''created_at'', JDate 1650000000000)]]\<rparr>) =
     (\<lparr>status = 401, json = JObj [(''error'', JStr ''Invalid token'')]\<rparr>,
      empty_store\<lparr>leads :=
        [[(''id'', JStr ''1''), (''created_at'', JDate 1600000000000)],
         [(''id'', JStr ''2''), (''created_at'', JDate 1650000000000)]]\<rparr>) \<and>
   app demo_libs demo_config demo_env GetLeads
     (demo_bearer\<lparr>param_id := [], body := []\<rparr>)
     (empty_store\<lparr>leads :=
        [[(''id'', JStr ''1''), (''created_at'', JDate 1600000000000)],
         [(''id'', JStr ''2''), (''created_at'', JDate 1650000000000)]]\<rparr>) =
     (res_json (JArr
        [JObj [(''id'', JStr ''2''), (''created_at'', JDate 1650000000000)],
         JObj [(''id'', JStr ''1''), (''created_at'', JDate 1600000000000)]]),
      empty_store\<lparr>leads :=
        [[(''id'', JStr ''1''), (''created_at'', JDate 1600000000000)],
         [(''id'', JStr ''2''), (''created_at'', JDate 1650000000000)]]\<rparr>)"
proof -
  let ?st = "empty_store\<lparr>leads :=
        [[(''id'', JStr ''1''), (''created_at'', JDate 1600000000000)],
         [(''id'', JStr ''2''), (''created_at'', JDate 1650000000000)]]\<rparr>"
  have up: "db_up demo_env" by (simp add: demo_env_def)
  have none: "extract_token (authorization demo_request) = None"
    by (simp add: demo_request_def extract_token_def)
  have bad: "extract_token (authorization (demo_request\<lparr>authorization := Some ''Bearer abc''\<rparr>))
               = Some ''abc'' \<and>
             jwt_verify demo_libs ''abc'' (jwt_secret demo_config) (now demo_env) = None"
    by (simp add: extract_token_def demo_libs_def demo_verify_def is_digit_def)
  note auth = demo_bearer_authorized[where i = "[]" and b = "[]"]
  from leads_list_is_protected_and_newest_first
    [of demo_request demo_libs demo_config demo_env ?st, THEN conjunct1] none
  have a: "app demo_libs demo_config demo_env GetLeads demo_request ?st =
             (res_error 401 ''No token provided'', ?st)"
    by (simp add: guarded_def verifyToken_def)
  from leads_list_is_protected_and_newest_first
    [of "demo_request\<lparr>authorization := Some ''Bearer abc''\<rparr>" demo_libs demo_config demo_env ?st,
     THEN conjunct1] bad
  have b: "app demo_libs demo_config demo_env GetLeads
             (demo_request\<lparr>authorization := Some ''Bearer abc''\<rparr>) ?st =
             (res_error 401 ''Invalid token'', ?st)"
    by (simp add: guarded_def verifyToken_def)
  from leads_list_is_protected_and_newest_first
    [of "demo_bearer\<lparr>param_id := [], body := []\<rparr>" demo_libs demo_config demo_env ?st,
     THEN conjunct2, THEN conjunct1, rule_format, OF conjI, OF auth up]
  have c: "app demo_libs demo_config demo_env GetLeads
             (demo_bearer\<lparr>param_id := [], body := []\<rparr>) ?st =
           (res_json (JArr
              [JObj [(''id'', JStr ''2''), (''created_at'', JDate 1650000000000)],
               JObj [(''id'', JStr ''1''), (''created_at'', JDate 1600000000000)]]), ?st)"
    using auth up
    by (simp add: guarded_def get_leads_def find_sorted_def sort_newest_first_def
        created_key_def docs_json_def hydrate_created_at(2))
  from a b c show ?thesis by (simp add: res_error_def)
qed

text \<open>
  C9, as the code has it. An authorized DELETE on properties or team, while the store
  answers, reports success whether or not a record has the id, and removes the first
  record that has it, if any. Deleting the same id twice reports success both times; the
  store after the second delete equals the store after the first when at most one record
  of the collection had that id.
\<close>

theorem delete_reports_success_and_removes_one_match:
  assumes auth1: "verifyToken L cfg e1 req = Inr r1" and up1: "db_up e1"
    and auth2: "verifyToken L cfg e2 req = Inr r2" and up2: "db_up e2"
  shows "app L cfg e1 DeleteProperty req st =
           (res_success,
            st\<lparr>properties := delete_first (matches (param_id req)) (properties st)\<rparr>) \<and>
         fst (app L cfg e2 DeleteProperty req (snd (app L cfg e1 DeleteProperty req st))) =
           res_success \<and>
         (length (filter (matches (param_id req)) (properties st)) \<le> 1 \<longrightarrow>
            snd (app L cfg e2 DeleteProperty req (snd (app L cfg e1 DeleteProperty req st))) =
            snd (app L cfg e1 DeleteProperty req st)) \<and>
         app L cfg e1 DeleteTeam req st =
           (res_success,
            st\<lparr>teammembers := delete_first (matches (param_id req)) (teammembers st)\<rparr>) \<and>
         fst (app L cfg e2 DeleteTeam req (snd (app L cfg e1 DeleteTeam req st))) =
           res_success \<and>
         (length (filter (matches (param_id req)) (teammembers st)) \<le> 1 \<longrightarrow>
            snd (app L cfg e2 DeleteTeam req (snd (app L cfg e1 DeleteTeam req st))) =
            snd (app L cfg e1 DeleteTeam req st))"
proof -
  from verifyToken_next[OF auth1] obtain d1 where r1: "r1 = req\<lparr>admin := Some d1\<rparr>" ..
  from verifyToken_next[OF auth2] obtain d2 where r2: "r2 = req\<lparr>admin := Some d2\<rparr>" ..
  have p: "app L cfg e DeleteProperty req s =
             (if db_up e
              then (res_success,
                    s\<lparr>properties := delete_first (matches (param_id req)) (properties s)\<rparr>)
              else (res_error 500 ''Failed to delete property'', s))"
    and t: "app L cfg e DeleteTeam req s =
             (if db_up e
              then (res_success,
                    s\<lparr>teammembers := delete_first (matches (param_id req)) (teammembers s)\<rparr>)
              else (res_error 500 ''Failed to delete team member'', s))"
    if "verifyToken L cfg e req = Inr (req\<lparr>admin := Some d\<rparr>)" for e s d
    using that by (simp_all add: guarded_def delete_property_def delete_team_def deleteOne_def)
  show ?thesis
    using p[OF auth1[unfolded r1]] p[OF auth2[unfolded r2]]
      t[OF auth1[unfolded r1]] t[OF auth2[unfolded r2]] up1 up2
    by (simp add: delete_first_twice)
qed

theorem delete_reports_success_witness:
  "verifyToken demo_libs demo_config demo_env (demo_bearer\<lparr>param_id := ''7'', body := []\<rparr>) =
     Inr (demo_bearer\<lparr>param_id := ''7'', body := [], admin := Some demo_admin\<rparr>) \<and>
   db_up demo_env \<and>
   app demo_libs demo_config demo_env DeleteTeam
     (demo_bearer\<lparr>param_id := ''7'', body := []\<rparr>)
     (empty_store\<lparr>teammembers :=
        [[(''id'', JStr ''7''), (''name'', JStr ''Ann'')],
         [(''id'', JStr ''8''), (''name'', JStr ''Ben'')]]\<rparr>) =
     (res_success,
      empty_store\<lparr>teammembers := [[(''id'', JStr ''8''), (''name'', JStr ''Ben'')]]\<rparr>) \<and>
   app demo_libs demo_config demo_env DeleteTeam
     (demo_bearer\<lparr>param_id := ''7'', body := []\<rparr>)
     (empty_store\<lparr>teammembers := [[(''id'', JStr ''8''), (''name'', JStr ''Ben'')]]\<rparr>) =
     (res_success,
      empty_store\<lparr>teammembers := [[(''id'', JStr ''8''), (''name'', JStr ''Ben'')]]\<rparr>)"
proof -
  let ?req = "demo_bearer\<lparr>param_id := ''7'', body := []\<rparr>"
  let ?st = "empty_store\<lparr>teammembers :=
        [[(''id'', JStr ''7''), (''name'', JStr ''Ann'')],
         [(''id'', JStr ''8''), (''name'', JStr ''Ben'')]]\<rparr>"
  let ?st1 = "empty_store\<lparr>teammembers := [[(''id'', JStr ''8''), (''name'', JStr ''Ben'')]]\<rparr>"
  have up: "db_up demo_env" by (simp add: demo_env_def)
  note auth = demo_bearer_authorized[where i = "''7''" and b = "[]"]
  note inst = delete_reports_success_and_removes_one_match[OF auth up auth up, of ?st]
  note team = inst[THEN conjunct2, THEN conjunct2, THEN conjunct2]
  have first: "app demo_libs demo_config demo_env DeleteTeam ?req ?st = (res_success, ?st1)"
    using team[THEN conjunct1] by (simp add: matches_def)
  have len: "length (filter (matches (param_id ?req)) (teammembers ?st)) \<le> 1"
    by (simp add: matches_def)
  have ok: "fst (app demo_libs demo_config demo_env DeleteTeam ?req ?st1) = res_success"
    using team[THEN conjunct2, THEN conjunct1] unfolding first snd_conv .
  have same: "snd (app demo_libs demo_config demo_env DeleteTeam ?req ?st1) = ?st1"
    using team[THEN conjunct2, THEN conjunct2, THEN mp, OF len] unfolding first snd_conv .
  from ok same have second: "app demo_libs demo_config demo_env DeleteTeam ?req ?st1 =
      (res_success, ?st1)"
    by (simp add: prod_eq_iff)
  from first second up auth show ?thesis by simp
qed

text \<open>
  C9 as the claim states it fails: the store does not keep ids unique, and
  \<^verbatim>\<open>deleteOne\<close> removes one record. With two team members of id 7, both deletes report
  success and the second removes the other record, so the store after the second delete
  differs from the store after the first.
\<close>

theorem second_delete_removes_a_duplicate_counterexample:
  "app demo_libs demo_config demo_env DeleteTeam
     (demo_bearer\<lparr>param_id := ''7''\<rparr>)
     (empty_store\<lparr>teammembers :=
        [[(''id'', JStr ''7''), (''name'', JStr ''Ann'')],
         [(''id'', JStr ''7''), (''name'', JStr ''Ben'')]]\<rparr>) =
     (res_success,
      empty_store\<lparr>teammembers := [[(''id'', JStr ''7''), (''name'', JStr ''Ben'')]]\<rparr>) \<and>
   app demo_libs demo_config demo_env DeleteTeam
     (demo_bearer\<lparr>param_id := ''7''\<rparr>)
     (empty_store\<lparr>teammembers := [[(''id'', JStr ''7''), (''name'', JStr ''Ben'')]]\<rparr>) =
     (res_success, empty_store\<lparr>teammembers := []\<rparr>) \<and>
   empty_store\<lparr>teammembers := []\<rparr> \<noteq>
     empty_store\<lparr>teammembers := [[(''id'', JStr ''7''), (''name'', JStr ''Ben'')]]\<rparr>"
proof -
  have auth: "verifyToken demo_libs demo_config demo_env (demo_bearer\<lparr>param_id := ''7''\<rparr>) =
      Inr (demo_bearer\<lparr>param_id := ''7'', admin := Some demo_admin\<rparr>)"
    using demo_bearer_authorized[where i = "''7''" and b = "[]"]
    by (simp add: demo_bearer_def demo_request_def)
  have up: "db_up demo_env" by (simp add: demo_env_def)
  show ?thesis
    using auth up
    by (simp add: guarded_def delete_team_def deleteOne_def matches_def empty_store_def)
qed

end
